theory Spec2Isabelle
  imports Main "HOL-Library.Sublist" "HOL-Library.Word"
begin

section \<open>JavaScript values, as \<open>app/routes/app._index.tsx\<close> handles them\<close>

text \<open>
  The route's \<open>loader\<close> and \<open>action\<close> work on untyped values (\<open>any\<close>): the JSON
  bodies parsed by \<open>Response.json()\<close>. A value is a JSON value or \<open>undefined\<close>, which
  property access yields for a missing key. An object is the parsed object: its
  key-value pairs, with distinct keys, read by key. A number is kept by the two things
  the route can observe of it: whether it is zero (its truthiness) and the text that
  \<open>${v}\<close> prints for it.
\<close>

datatype jsval =
    JUndefined
  | JNull
  | JBool bool
  | JNum (nonzero: bool) (printed: string)
  | JStr string
  | JArr "jsval list"
  | JObj "(string \<times> jsval) list"

text \<open>What the source can raise: a property read on \<open>null\<close>/\<open>undefined\<close>, a call of a
  non-function or a failed conversion to a string (\<open>TypeError\<close>), a rejected \<open>fetch\<close>, a
  body that does not parse, and an error raised by the Admin client.\<close>

datatype exn = TypeError | FetchError | ParseError | GraphqlError

definition bind_exn :: "exn + 'a \<Rightarrow> ('a \<Rightarrow> exn + 'b) \<Rightarrow> exn + 'b" where
  "bind_exn m f = (case m of Inl e \<Rightarrow> Inl e | Inr v \<Rightarrow> f v)"

fun map_exn :: "('a \<Rightarrow> exn + 'b) \<Rightarrow> 'a list \<Rightarrow> exn + 'b list" where
  "map_exn f [] = Inr []"
| "map_exn f (x # xs) =
     bind_exn (f x) (\<lambda>y. bind_exn (map_exn f xs) (\<lambda>ys. Inr (y # ys)))"

text \<open>JavaScript truthiness: \<open>!v\<close> holds exactly when \<open>truthy v\<close> fails.\<close>

fun truthy :: "jsval \<Rightarrow> bool" where
  "truthy JUndefined = False"
| "truthy JNull = False"
| "truthy (JBool b) = b"
| "truthy (JNum nz t) = nz"
| "truthy (JStr s) = (s \<noteq> [])"
| "truthy (JArr xs) = True"
| "truthy (JObj kvs) = True"

text \<open>\<open>v.k\<close> for the keys the route reads (none of them is a built-in property of a string,
  a number or an array, except \<open>map\<close>, which is modelled where it is called).\<close>

fun get_prop :: "jsval \<Rightarrow> string \<Rightarrow> exn + jsval" where
  "get_prop JUndefined k = Inl TypeError"
| "get_prop JNull k = Inl TypeError"
| "get_prop (JObj kvs) k = Inr (case map_of kvs k of None \<Rightarrow> JUndefined | Some v \<Rightarrow> v)"
| "get_prop v k = Inr JUndefined"

text \<open>\<open>v[0]\<close>: the first element of an array, the first character of a string, the key
  \<open>"0"\<close> of an object.\<close>

fun get_first :: "jsval \<Rightarrow> exn + jsval" where
  "get_first JUndefined = Inl TypeError"
| "get_first JNull = Inl TypeError"
| "get_first (JArr xs) = Inr (case xs of [] \<Rightarrow> JUndefined | x # _ \<Rightarrow> x)"
| "get_first (JStr s) = Inr (case s of [] \<Rightarrow> JUndefined | c # _ \<Rightarrow> JStr [c])"
| "get_first (JObj kvs) = Inr (case map_of kvs ''0'' of None \<Rightarrow> JUndefined | Some v \<Rightarrow> v)"
| "get_first v = Inr JUndefined"

text \<open>\<open>a.join(sep)\<close> on strings.\<close>

fun join :: "string \<Rightarrow> string list \<Rightarrow> string" where
  "join sep [] = []"
| "join sep [x] = x"
| "join sep (x # y # ys) = x @ sep @ join sep (y # ys)"

text \<open>\<open>${v}\<close> in a template literal, the conversion of \<open>v\<close> to a string. A string is
  itself. An array is its elements, converted and joined by commas (\<open>null\<close> and
  \<open>undefined\<close> elements are empty). A parsed object prints as \<open>[object Object]\<close> unless it
  has a key \<open>toString\<close> of its own: that value is no function, and the conversion raises
  a \<open>TypeError\<close>.\<close>

fun js_to_string :: "jsval \<Rightarrow> exn + string"
  and js_elements :: "jsval list \<Rightarrow> exn + string list" where
  "js_to_string JUndefined = Inr ''undefined''"
| "js_to_string JNull = Inr ''null''"
| "js_to_string (JBool b) = Inr (if b then ''true'' else ''false'')"
| "js_to_string (JNum nz t) = Inr t"
| "js_to_string (JStr s) = Inr s"
| "js_to_string (JArr xs) = bind_exn (js_elements xs) (\<lambda>ss. Inr (join '','' ss))"
| "js_to_string (JObj kvs) =
     (if ''toString'' \<in> fst ` set kvs then Inl TypeError else Inr ''[object Object]'')"
| "js_elements [] = Inr []"
| "js_elements (x # xs) =
     bind_exn (if x = JNull \<or> x = JUndefined then Inr [] else js_to_string x) (\<lambda>s.
     bind_exn (js_elements xs) (\<lambda>ss. Inr (s # ss)))"

section \<open>The outside world\<close>

text \<open>A \<open>Response\<close> of \<open>fetch\<close> or of the Admin client: its status, what \<open>json()\<close> gives and
  what \<open>arrayBuffer()\<close> gives (either may reject).\<close>

record response =
  resp_status :: nat
  resp_json :: "exn + jsval"
  resp_bytes :: "exn + 8 word list"

text \<open>\<open>Response.ok\<close>: the status is in the range 200 to 299.\<close>

definition ok :: "response \<Rightarrow> bool" where
  "ok r = (200 \<le> resp_status r \<and> resp_status r \<le> 299)"

text \<open>A GraphQL document as the source writes it: a field has a name, arguments (an
  integer literal or a \<open>$variable\<close>) and a selection of fields; an operation is a query
  or a mutation with a name, declared variables and a selection.\<close>

datatype arg = Lit nat | Var string

datatype gql = GField string "(string \<times> arg) list" "gql list"

datatype op_kind = QueryOp | MutationOp

record operation =
  op_kind :: op_kind
  op_name :: string
  op_variables :: "(string \<times> string) list"
  op_selection :: "gql list"

text \<open>The body of the request to the generation API (\<open>requestData\<close>, lines 141-167).\<close>

datatype content_block =
    TextBlock string
  | ImageBlock string string string

record message =
  role :: string
  content :: "content_block list"

record request_data =
  model :: string
  max_tokens :: nat
  system :: string
  messages :: "message list"

text \<open>The two uses of \<open>fetch\<close>: \<open>fetch(url)\<close> and
  \<open>fetch(url, {method: "POST", headers, body})\<close>.\<close>

datatype http_request =
    Get string
  | Post string "(string \<times> string) list" request_data

text \<open>The external calls: \<open>admin.graphql(document, {variables})\<close> and \<open>fetch\<close>.\<close>

datatype call =
    AdminGraphql operation jsval
  | Fetch http_request

text \<open>The environment answers each call: it rejects (\<open>Inl\<close>) or resolves to a response.
  \<open>CLAUDE_API_SECRET\<close> is the variable of \<open>process.env\<close>.\<close>

record env =
  admin_graphql :: "operation \<Rightarrow> jsval \<Rightarrow> exn + response"
  fetch :: "http_request \<Rightarrow> exn + response"
  CLAUDE_API_SECRET :: "string option"

text \<open>What \<open>json(data, {status})\<close> returns to the UI: the body and the HTTP status
  (200 when none is given). \<open>JSON.stringify\<close> leaves out a key whose value is
  \<open>undefined\<close>.\<close>

record reply =
  body :: jsval
  status :: nat

definition json :: "(string \<times> jsval) list \<Rightarrow> nat \<Rightarrow> reply" where
  "json kvs st = \<lparr>body = JObj (filter (\<lambda>kv. snd kv \<noteq> JUndefined) kvs), status = st\<rparr>"

section \<open>Effects\<close>

text \<open>An \<open>async\<close> computation runs on the list of external calls made so far and gives
  its value, or the exception it raises, with the calls made by then. The two
  primitives \<open>call_graphql\<close> and \<open>call_fetch\<close> are the only places where the environment
  is asked, and the only ones that record a call: a call is in the list exactly when
  it was made, with the arguments it was made with.\<close>

type_synonym 'a io = "call list \<Rightarrow> (exn + 'a) \<times> call list"

definition io_return :: "'a \<Rightarrow> 'a io" where
  "io_return v = (\<lambda>calls. (Inr v, calls))"

text \<open>A computation without external calls, which may raise.\<close>

definition io_lift :: "exn + 'a \<Rightarrow> 'a io" where
  "io_lift m = (\<lambda>calls. (m, calls))"

text \<open>\<open>const v = await m; ...\<close>\<close>

definition io_bind :: "'a io \<Rightarrow> ('a \<Rightarrow> 'b io) \<Rightarrow> 'b io" where
  "io_bind m f =
     (\<lambda>calls. case m calls of (Inl e, calls') \<Rightarrow> (Inl e, calls') | (Inr v, calls') \<Rightarrow> f v calls')"

text \<open>\<open>try { m } catch (e) { h }\<close>\<close>

definition io_catch :: "'a io \<Rightarrow> (exn \<Rightarrow> 'a io) \<Rightarrow> 'a io" where
  "io_catch m h =
     (\<lambda>calls. case m calls of (Inl e, calls') \<Rightarrow> h e calls' | (Inr v, calls') \<Rightarrow> (Inr v, calls'))"

text \<open>\<open>await admin.graphql(document, {variables})\<close>\<close>

definition call_graphql :: "env \<Rightarrow> operation \<Rightarrow> jsval \<Rightarrow> response io" where
  "call_graphql env document variables =
     (\<lambda>calls. (admin_graphql env document variables, calls @ [AdminGraphql document variables]))"

text \<open>\<open>await fetch(...)\<close>\<close>

definition call_fetch :: "env \<Rightarrow> http_request \<Rightarrow> response io" where
  "call_fetch env request = (\<lambda>calls. (fetch env request, calls @ [Fetch request]))"

section \<open>\<open>Buffer.toString('base64')\<close>\<close>

definition base64_alphabet :: string where
  "base64_alphabet = ''ABCDEFGHIJKLMNOPQRSTUVWXYZabcdefghijklmnopqrstuvwxyz0123456789+/''"

definition b64 :: "nat \<Rightarrow> char" where
  "b64 i = base64_alphabet ! (i mod 64)"

fun base64 :: "8 word list \<Rightarrow> string" where
  "base64 [] = []"
| "base64 [a] =
     (let n = unat a * 65536
      in [b64 (n div 262144), b64 (n div 4096)] @ ''=='')"
| "base64 [a, b] =
     (let n = unat a * 65536 + unat b * 256
      in [b64 (n div 262144), b64 (n div 4096), b64 (n div 64)] @ ''='')"
| "base64 (a # b # c # rest) =
     (let n = unat a * 65536 + unat b * 256 + unat c
      in [b64 (n div 262144), b64 (n div 4096), b64 (n div 64), b64 n] @ base64 rest)"

section \<open>The three GraphQL documents of the source\<close>

text \<open>A field without arguments and without a selection.\<close>

definition leaf :: "string \<Rightarrow> gql" where
  "leaf name = GField name [] []"

text \<open>Lines 31-54, the query of \<open>loader\<close>.\<close>

definition products_document :: operation where
  "products_document =
     \<lparr>op_kind = QueryOp, op_name = [], op_variables = [],
      op_selection =
        [GField ''products'' [(''first'', Lit 20)]
          [GField ''edges'' []
            [GField ''node'' []
              [leaf ''id'',
               leaf ''title'',
               leaf ''onlineStoreUrl'',
               GField ''featuredImage'' [] [leaf ''url''],
               GField ''variants'' [(''first'', Lit 5)]
                 [GField ''edges'' []
                   [GField ''node'' [] [leaf ''id'', leaf ''title'', leaf ''price'']]],
               leaf ''descriptionHtml'']]]]\<rparr>"

text \<open>Lines 76-84, the mutation of the update branch.\<close>

definition update_document :: operation where
  "update_document =
     \<lparr>op_kind = MutationOp, op_name = ''updateProductDescription'',
      op_variables = [(''input'', ''ProductInput!'')],
      op_selection =
        [GField ''productUpdate'' [(''input'', Var ''input'')]
          [GField ''product'' []
            [leaf ''id'', leaf ''onlineStoreUrl'', leaf ''onlineStorePreviewUrl'']]]\<rparr>"

text \<open>Lines 106-121, the query of the generate branch.\<close>

definition product_document :: operation where
  "product_document =
     \<lparr>op_kind = QueryOp, op_name = [], op_variables = [(''productId'', ''ID!'')],
      op_selection =
        [GField ''product'' [(''id'', Var ''productId'')]
          [leaf ''title'',
           GField ''featuredImage'' [] [leaf ''url''],
           GField ''variants'' [(''first'', Lit 5)]
             [GField ''edges'' []
               [GField ''node'' [] [leaf ''title'', leaf ''price'']]]]]\<rparr>"

section \<open>\<open>action\<close>: the update branch (lines 71-102)\<close>

text \<open>\<open>formData.get(k)\<close> gives the field or \<open>null\<close>; the form is a map from field names to
  strings. The first argument of \<open>action\<close> stands for the authenticated Admin client and
  the rest of the outside world: authentication and form parsing are the framework's.\<close>

type_synonym form_data = "string \<rightharpoonup> string"

definition form_value :: "string option \<Rightarrow> jsval" where
  "form_value v = (case v of None \<Rightarrow> JNull | Some s \<Rightarrow> JStr s)"

text \<open>Lines 94-96: the reply is read and the URL chosen with \<open>||\<close>.\<close>

definition read_update :: "response \<Rightarrow> exn + reply" where
  "read_update productResponse =
     bind_exn (resp_json productResponse) (\<lambda>productData.
     bind_exn (get_prop productData ''data'') (\<lambda>d.
     bind_exn (get_prop d ''productUpdate'') (\<lambda>pu.
     bind_exn (get_prop pu ''product'') (\<lambda>product.
     bind_exn (get_prop product ''onlineStoreUrl'') (\<lambda>storeUrl.
     bind_exn (if truthy storeUrl then Inr storeUrl
               else get_prop product ''onlineStorePreviewUrl'') (\<lambda>onlineStoreUrl.
     Inr (json [(''success'', JBool True), (''onlineStoreUrl'', onlineStoreUrl)] 200)))))))"

text \<open>The body of the \<open>try\<close> of lines 73-97.\<close>

definition try_update :: "env \<Rightarrow> string \<Rightarrow> string option \<Rightarrow> reply io" where
  "try_update env productId description =
     io_bind
       (call_graphql env update_document
          (JObj [(''input'',
             JObj [(''id'', JStr productId),
                   (''descriptionHtml'', form_value description)])]))
       (\<lambda>productResponse. io_lift (read_update productResponse))"

definition update_failed :: reply where
  "update_failed = json [(''error'', JStr ''Failed to update product description'')] 500"

definition update_description :: "env \<Rightarrow> string \<Rightarrow> string option \<Rightarrow> reply io" where
  "update_description env productId description =
     io_catch (try_update env productId description) (\<lambda>e. io_return update_failed)"

section \<open>\<open>action\<close>: the generate branch (lines 104-207)\<close>

text \<open>Line 131: one \<open>title - $price\<close> string for each edge.\<close>

definition variant_entry :: "jsval \<Rightarrow> exn + string" where
  "variant_entry edge =
     bind_exn (get_prop edge ''node'') (\<lambda>node1.
     bind_exn (get_prop node1 ''title'') (\<lambda>t.
     bind_exn (js_to_string t) (\<lambda>ts.
     bind_exn (get_prop edge ''node'') (\<lambda>node2.
     bind_exn (get_prop node2 ''price'') (\<lambda>p.
     bind_exn (js_to_string p) (\<lambda>ps.
     Inr (ts @ '' - $'' @ ps)))))))"

text \<open>\<open>edges.map(f)\<close>: only an array has \<open>map\<close>.\<close>

definition array_map :: "jsval \<Rightarrow> (jsval \<Rightarrow> exn + 'a) \<Rightarrow> exn + 'a list" where
  "array_map v f = (case v of JArr xs \<Rightarrow> map_exn f xs | _ \<Rightarrow> Inl TypeError)"

text \<open>\<open>v?.k\<close>.\<close>

definition get_opt :: "jsval \<Rightarrow> string \<Rightarrow> exn + jsval" where
  "get_opt v k = (if v = JNull \<or> v = JUndefined then Inr JUndefined else get_prop v k)"

text \<open>Lines 129-132: the three facts read from the reply of the product query
  (\<open>productTitle\<close>, \<open>variants\<close>, \<open>imageUrl\<close>).\<close>

definition read_product :: "response \<Rightarrow> exn + (jsval \<times> string list \<times> jsval)" where
  "read_product productResponse =
     bind_exn (resp_json productResponse) (\<lambda>productData.
     bind_exn (get_prop productData ''data'') (\<lambda>d1.
     bind_exn (get_prop d1 ''product'') (\<lambda>product1.
     bind_exn (get_prop product1 ''title'') (\<lambda>productTitle.
     bind_exn (get_prop product1 ''variants'') (\<lambda>vs.
     bind_exn (get_prop vs ''edges'') (\<lambda>edges.
     bind_exn (array_map edges variant_entry) (\<lambda>variants.
     bind_exn (get_prop product1 ''featuredImage'') (\<lambda>featuredImage.
     bind_exn (get_opt featuredImage ''url'') (\<lambda>imageUrl.
     Inr (productTitle, variants, imageUrl))))))))))"

text \<open>Lines 104-132. Nothing here is inside a \<open>try\<close>.\<close>

definition lookup_product :: "env \<Rightarrow> string \<Rightarrow> (jsval \<times> string list \<times> jsval) io" where
  "lookup_product env productId =
     io_bind (call_graphql env product_document (JObj [(''productId'', JStr productId)]))
       (\<lambda>productResponse. io_lift (read_product productResponse))"

text \<open>Lines 134-139: \<open>imageBase64\<close> stays \<open>undefined\<close> (\<open>None\<close>) without an image URL;
  otherwise the image is fetched and encoded, outside any \<open>try\<close>. The status of the
  image response is not looked at.\<close>

definition load_image :: "env \<Rightarrow> jsval \<Rightarrow> string option io" where
  "load_image env imageUrl =
     (if truthy imageUrl then
        io_bind (io_lift (js_to_string imageUrl)) (\<lambda>url.
        io_bind (call_fetch env (Get url)) (\<lambda>imageResponse.
        io_bind (io_lift (resp_bytes imageResponse)) (\<lambda>imageBuffer.
        io_return (Some (base64 imageBuffer)))))
      else io_return None)"

definition image_clause :: string where
  "image_clause = '' Use the provided image for additional context.''"

text \<open>The template literal of lines 151-154.\<close>

definition prompt :: "jsval \<Rightarrow> string list \<Rightarrow> jsval \<Rightarrow> exn + string" where
  "prompt productTitle variants imageUrl =
     bind_exn (js_to_string productTitle) (\<lambda>title.
     Inr (''Generate an engaging product description for the following product:'' @ [CHR 0x0A] @
          ''  Title: '' @ title @ [CHR 0x0A] @
          ''  Variants: '' @ join '', '' variants @ [CHR 0x0A] @
          ''  Please provide a compelling product description that highlights key features, benefits, and unique selling points. Ensure the description is SEO-friendly and approximately 150-200 words long.'' @
          (if truthy imageUrl then image_clause else [])))"

text \<open>Lines 141-167. The image block is there when \<open>imageBase64\<close> is truthy.\<close>

definition requestData ::
  "jsval \<Rightarrow> string list \<Rightarrow> jsval \<Rightarrow> string option \<Rightarrow> exn + request_data" where
  "requestData productTitle variants imageUrl imageBase64 =
     bind_exn (prompt productTitle variants imageUrl) (\<lambda>prompt_text.
     Inr \<lparr>model = ''claude-3-opus-20240229'',
          max_tokens = 1000,
          system = ''You are a professional product copywriter specializing in creating compelling and SEO-friendly product descriptions.'',
          messages =
            [\<lparr>role = ''user'',
              content =
                TextBlock prompt_text #
                (case imageBase64 of
                   None \<Rightarrow> []
                 | Some data \<Rightarrow>
                     if data = [] then [] else [ImageBlock ''base64'' ''image/jpeg'' data])\<rparr>]\<rparr>)"

text \<open>Everything before the \<open>try\<close> of line 169: the request body, or the exception that
  leaves \<open>action\<close>.\<close>

definition prepare_request :: "env \<Rightarrow> string \<Rightarrow> request_data io" where
  "prepare_request env productId =
     io_bind (lookup_product env productId) (\<lambda>(productTitle, variants, imageUrl).
     io_bind (load_image env imageUrl) (\<lambda>imageBase64.
     io_lift (requestData productTitle variants imageUrl imageBase64)))"

definition api_url :: string where
  "api_url = ''https://api.anthropic.com/v1/messages''"

definition api_headers :: "env \<Rightarrow> (string \<times> string) list" where
  "api_headers env =
     [(''Content-Type'', ''application/json''),
      (''X-API-Key'', (case CLAUDE_API_SECRET env of None \<Rightarrow> [] | Some k \<Rightarrow> k)),
      (''anthropic-version'', ''2023-06-01'')]"

definition placeholder :: string where
  "placeholder = ''Failed to generate description. Let`s try use this one for demo purposes.''"

definition fallback :: reply where
  "fallback = json [(''description'', JStr placeholder)] 200"

definition generation_failed :: reply where
  "generation_failed =
     json [(''error'', JStr ''Failed to generate description. Please try again later.'')] 500"

text \<open>Lines 179-201: what is made of the response of the generation API.\<close>

definition read_generation :: "response \<Rightarrow> exn + reply" where
  "read_generation aiResponse =
     (if \<not> ok aiResponse then Inr fallback
      else
        bind_exn (resp_json aiResponse) (\<lambda>aiResponseJson.
        bind_exn (get_prop aiResponseJson ''content'') (\<lambda>c1.
        if \<not> truthy c1 then Inr fallback
        else
          bind_exn (get_first c1) (\<lambda>c0.
          if \<not> truthy c0 then Inr fallback
          else
            bind_exn (get_prop c0 ''text'') (\<lambda>t.
            if \<not> truthy t then Inr fallback
            else Inr (json [(''description'', t)] 200))))))"

text \<open>The body of the \<open>try\<close> of lines 169-201.\<close>

definition try_generation :: "env \<Rightarrow> request_data \<Rightarrow> reply io" where
  "try_generation env rd =
     io_bind (call_fetch env (Post api_url (api_headers env) rd))
       (\<lambda>aiResponse. io_lift (read_generation aiResponse))"

text \<open>Lines 169-207 with the \<open>catch\<close>.\<close>

definition request_generation :: "env \<Rightarrow> request_data \<Rightarrow> reply io" where
  "request_generation env rd =
     io_catch (try_generation env rd) (\<lambda>e. io_return generation_failed)"

definition generate_description :: "env \<Rightarrow> string \<Rightarrow> reply io" where
  "generate_description env productId =
     io_bind (prepare_request env productId) (request_generation env)"

section \<open>\<open>action\<close> (lines 61-208)\<close>

definition missing_product_id :: reply where
  "missing_product_id = json [(''error'', JStr ''Product ID is required'')] 400"

text \<open>The result is the reply, or the exception that leaves \<open>action\<close> uncaught, together
  with the external calls made, in order.\<close>

definition action :: "env \<Rightarrow> form_data \<Rightarrow> (exn + reply) \<times> call list" where
  "action env formData =
     (case formData ''productId'' of
        None \<Rightarrow> io_return missing_product_id
      | Some productId \<Rightarrow>
          if productId = [] then io_return missing_product_id
          else if formData ''action'' = Some ''update''
          then update_description env productId (formData ''description'')
          else generate_description env productId) []"

section \<open>\<open>loader\<close> (lines 26-59)\<close>

definition read_products :: "response \<Rightarrow> exn + reply" where
  "read_products response =
     bind_exn (resp_json response) (\<lambda>responseJson.
     bind_exn (get_prop responseJson ''data'') (\<lambda>d.
     bind_exn (get_prop d ''products'') (\<lambda>ps.
     bind_exn (get_prop ps ''edges'') (\<lambda>edges.
     Inr (json [(''products'', edges)] 200)))))"

text \<open>The query is sent without variables.\<close>

definition loader :: "env \<Rightarrow> (exn + reply) \<times> call list" where
  "loader env =
     io_bind (call_graphql env products_document JUndefined)
       (\<lambda>response. io_lift (read_products response)) []"

section \<open>The replies of the Admin API\<close>

text \<open>The shapes of the replies, as the selections of the three documents fix them. A
  nullable field that has no value is \<open>null\<close>, a connection is a list of \<open>edges\<close>, each
  with its \<open>node\<close>.\<close>

record variant =
  variant_id :: string
  variant_title :: string
  variant_price :: string

definition nullable :: "string option \<Rightarrow> jsval" where
  "nullable v = (case v of None \<Rightarrow> JNull | Some s \<Rightarrow> JStr s)"

definition image_json :: "string option \<Rightarrow> jsval" where
  "image_json img = (case img of None \<Rightarrow> JNull | Some u \<Rightarrow> JObj [(''url'', JStr u)])"

definition edges_json :: "'a list \<Rightarrow> ('a \<Rightarrow> jsval) \<Rightarrow> jsval" where
  "edges_json xs node = JObj [(''edges'', JArr (map (\<lambda>x. JObj [(''node'', node x)]) xs))]"

text \<open>The selection of lines 107-119 (\<open>title\<close>, \<open>featuredImage { url }\<close>, the variants
  with \<open>title\<close> and \<open>price\<close>), for a product with the given title, image URL and
  returned variants; and the reply around it, \<open>null\<close> when the id does not resolve.\<close>

definition product_fields :: "string \<Rightarrow> string option \<Rightarrow> variant list \<Rightarrow> jsval" where
  "product_fields t img vs =
     JObj [(''title'', JStr t),
           (''featuredImage'', image_json img),
           (''variants'',
              edges_json vs
                (\<lambda>v. JObj [(''title'', JStr (variant_title v)),
                            (''price'', JStr (variant_price v))]))]"

definition product_data :: "jsval \<Rightarrow> jsval" where
  "product_data p = JObj [(''data'', JObj [(''product'', p)])]"

text \<open>The selection of lines 78-82, in the reply to the mutation.\<close>

definition product_update :: "string \<Rightarrow> string option \<Rightarrow> string option \<Rightarrow> jsval" where
  "product_update productId storeUrl previewUrl =
     JObj [(''data'', JObj [(''productUpdate'', JObj [(''product'',
       JObj [(''id'', JStr productId),
             (''onlineStoreUrl'', nullable storeUrl),
             (''onlineStorePreviewUrl'', nullable previewUrl)])])])]"

text \<open>The selection of lines 35-50, for a product of the listing with its returned
  variants.\<close>

definition listing_json ::
  "string \<Rightarrow> string \<Rightarrow> string option \<Rightarrow> string option \<Rightarrow> variant list \<Rightarrow> string \<Rightarrow> jsval" where
  "listing_json pid t url img vs description =
     JObj [(''id'', JStr pid),
           (''title'', JStr t),
           (''onlineStoreUrl'', nullable url),
           (''featuredImage'', image_json img),
           (''variants'',
              edges_json vs
                (\<lambda>v. JObj [(''id'', JStr (variant_id v)),
                            (''title'', JStr (variant_title v)),
                            (''price'', JStr (variant_price v))])),
           (''descriptionHtml'', JStr description)]"

definition json_response :: "jsval \<Rightarrow> response" where
  "json_response v = \<lparr>resp_status = 200, resp_json = Inr v, resp_bytes = Inr []\<rparr>"

section \<open>The Admin API of a shop\<close>

text \<open>The catalog of a shop is its list of products.\<close>

record product =
  product_id :: string
  product_title :: string
  product_onlineStoreUrl :: "string option"
  product_featuredImage :: "string option"
  product_variants :: "variant list"
  product_descriptionHtml :: string

text \<open>The data a selection is run on: a scalar, an object with its fields, a connection
  with all its nodes, a list.\<close>

datatype tree =
    Leaf jsval
  | Obj "(string \<times> tree) list"
  | Conn "tree list"
  | Many "tree list"

definition variant_tree :: "variant \<Rightarrow> tree" where
  "variant_tree v =
     Obj [(''id'', Leaf (JStr (variant_id v))),
          (''title'', Leaf (JStr (variant_title v))),
          (''price'', Leaf (JStr (variant_price v)))]"

definition product_tree :: "product \<Rightarrow> tree" where
  "product_tree p =
     Obj [(''id'', Leaf (JStr (product_id p))),
          (''title'', Leaf (JStr (product_title p))),
          (''onlineStoreUrl'', Leaf (nullable (product_onlineStoreUrl p))),
          (''featuredImage'',
             (case product_featuredImage p of
                None \<Rightarrow> Leaf JNull
              | Some u \<Rightarrow> Obj [(''url'', Leaf (JStr u))])),
          (''variants'', Conn (map variant_tree (product_variants p))),
          (''descriptionHtml'', Leaf (JStr (product_descriptionHtml p)))]"

fun field_name :: "gql \<Rightarrow> string" where
  "field_name (GField n args sub) = n"

text \<open>Running a field of a document on the data: a scalar is returned, an object answers
  the selection field by field, and a connection asked with \<open>first: k\<close> answers with
  the \<open>edges\<close> of its first \<open>k\<close> nodes, whatever \<open>k\<close> the document gives. A field the
  data does not have, or a connection asked without \<open>first\<close>, is an error.\<close>

fun exec :: "gql \<Rightarrow> tree \<Rightarrow> exn + jsval"
  and exec_set :: "gql list \<Rightarrow> (string \<times> tree) list \<Rightarrow> exn + (string \<times> jsval) list"
  and exec_many :: "gql \<Rightarrow> tree list \<Rightarrow> exn + jsval list" where
  "exec (GField n args sub) (Leaf v) = Inr v"
| "exec (GField n args sub) (Obj kvs) = bind_exn (exec_set sub kvs) (\<lambda>fs. Inr (JObj fs))"
| "exec (GField n args sub) (Many ts) =
     bind_exn (exec_many (GField n args sub) ts) (\<lambda>vs. Inr (JArr vs))"
| "exec (GField n args sub) (Conn ts) =
     (case map_of args ''first'' of
        Some (Lit k) \<Rightarrow>
          bind_exn
            (exec_set sub [(''edges'', Many (map (\<lambda>t. Obj [(''node'', t)]) (take k ts)))])
            (\<lambda>fs. Inr (JObj fs))
      | _ \<Rightarrow> Inl GraphqlError)"
| "exec_set [] kvs = Inr []"
| "exec_set (f # fs) kvs =
     (case map_of kvs (field_name f) of
        None \<Rightarrow> Inl GraphqlError
      | Some t \<Rightarrow>
          bind_exn (exec f t) (\<lambda>v.
          bind_exn (exec_set fs kvs) (\<lambda>rest. Inr ((field_name f, v) # rest))))"
| "exec_many f [] = Inr []"
| "exec_many f (t # ts) =
     bind_exn (exec f t) (\<lambda>v. bind_exn (exec_many f ts) (\<lambda>vs. Inr (v # vs)))"

text \<open>The two root fields the documents use: \<open>products\<close>, the connection of all
  products, and \<open>product(id: $x)\<close>, the product with the id the variable holds, \<open>null\<close>
  when there is none.\<close>

fun root_field :: "product list \<Rightarrow> jsval \<Rightarrow> gql \<Rightarrow> exn + (string \<times> jsval)" where
  "root_field shop variables (GField n args sub) =
     (if n = ''products'' then
        bind_exn (exec (GField n args sub) (Conn (map product_tree shop))) (\<lambda>v. Inr (n, v))
      else if n = ''product'' then
        (case map_of args ''id'' of
           Some (Var x) \<Rightarrow>
             bind_exn (get_prop variables x) (\<lambda>id.
             case find (\<lambda>p. JStr (product_id p) = id) shop of
               None \<Rightarrow> Inr (n, JNull)
             | Some p \<Rightarrow>
                 bind_exn (exec (GField n args sub) (product_tree p)) (\<lambda>v. Inr (n, v)))
         | _ \<Rightarrow> Inl GraphqlError)
      else Inl GraphqlError)"

definition admin_api :: "product list \<Rightarrow> operation \<Rightarrow> jsval \<Rightarrow> exn + response" where
  "admin_api shop document variables =
     bind_exn (map_exn (root_field shop variables) (op_selection document))
       (\<lambda>fs. Inr (json_response (JObj [(''data'', JObj fs)])))"

text \<open>An environment whose Admin client answers queries from the shop.\<close>

definition shop_env :: "product list \<Rightarrow> env \<Rightarrow> env" where
  "shop_env shop env =
     env\<lparr>admin_graphql := (\<lambda>document variables.
            if op_kind document = QueryOp then admin_api shop document variables
            else admin_graphql env document variables)\<rparr>"

section \<open>Reading requests, calls and replies\<close>

text \<open>The \<open>title - $price\<close> entry of a variant, and the text of the prompt in a request.\<close>

definition entry :: "variant \<Rightarrow> string" where
  "entry v = variant_title v @ '' - $'' @ variant_price v"

definition request_prompt :: "request_data \<Rightarrow> string option" where
  "request_prompt rd =
     (case messages rd of
        m # _ \<Rightarrow> (case content m of TextBlock t # _ \<Rightarrow> Some t | _ \<Rightarrow> None)
      | [] \<Rightarrow> None)"

text \<open>The Publisher is the update branch: a run of it is a mutation sent to the Admin
  API. The Generator is the generate branch: a run of it starts with a query sent to
  the Admin API and ends with the POST to the generation API, unless a step before
  that raises.\<close>

fun is_write :: "call \<Rightarrow> bool" where
  "is_write (AdminGraphql document variables) = (op_kind document = MutationOp)"
| "is_write c = False"

fun is_lookup :: "call \<Rightarrow> bool" where
  "is_lookup (AdminGraphql document variables) = (op_kind document = QueryOp)"
| "is_lookup c = False"

fun is_generation :: "call \<Rightarrow> bool" where
  "is_generation (Fetch (Post u h b)) = True"
| "is_generation c = False"

definition publisher_calls :: "call list \<Rightarrow> nat" where
  "publisher_calls calls = length (filter is_write calls)"

definition generator_calls :: "call list \<Rightarrow> nat" where
  "generator_calls calls = length (filter is_lookup calls)"

definition generation_requests :: "call list \<Rightarrow> nat" where
  "generation_requests calls = length (filter is_generation calls)"

text \<open>The variables of the product query for an id, \<open>{productId}\<close>.\<close>

definition product_variables :: "string \<Rightarrow> jsval" where
  "product_variables productId = JObj [(''productId'', JStr productId)]"

text \<open>The text field a reply of the generation API is expected to carry,
  \<open>content[0].text\<close>: the \<open>text\<close> of the first element of \<open>content\<close>, when the reply has
  one. A reply lacks it when there is none or it is \<open>null\<close> or empty.\<close>

definition child :: "jsval \<Rightarrow> string \<Rightarrow> jsval option" where
  "child v k = (case v of JObj kvs \<Rightarrow> map_of kvs k | _ \<Rightarrow> None)"

definition first_element :: "jsval \<Rightarrow> jsval option" where
  "first_element v =
     (case v of
        JArr (x # _) \<Rightarrow> Some x
      | JStr (c # _) \<Rightarrow> Some (JStr [c])
      | JObj kvs \<Rightarrow> map_of kvs ''0''
      | _ \<Rightarrow> None)"

definition expected_text :: "jsval \<Rightarrow> jsval option" where
  "expected_text b =
     (case child b ''content'' of
        None \<Rightarrow> None
      | Some c \<Rightarrow> (case first_element c of None \<Rightarrow> None | Some e \<Rightarrow> child e ''text''))"

definition lacks_text :: "jsval \<Rightarrow> bool" where
  "lacks_text b =
     (case expected_text b of
        None \<Rightarrow> True
      | Some t \<Rightarrow> t = JNull \<or> t = JUndefined \<or> t = JStr [])"

section \<open>A shop and its surroundings, for concrete runs\<close>

definition mug :: product where
  "mug =
     \<lparr>product_id = ''gid://shopify/Product/1'', product_title = ''Blue Mug'',
      product_onlineStoreUrl = None, product_featuredImage = None,
      product_variants =
        [\<lparr>variant_id = ''gid://shopify/ProductVariant/10'', variant_title = ''Default'',
          variant_price = ''12.00''\<rparr>],
      product_descriptionHtml = []\<rparr>"

definition size_variant :: "string \<Rightarrow> variant" where
  "size_variant s =
     \<lparr>variant_id = ''gid://shopify/ProductVariant/2'' @ s, variant_title = s,
      variant_price = ''30.00''\<rparr>"

definition shirt :: product where
  "shirt =
     \<lparr>product_id = ''gid://shopify/Product/2'', product_title = ''Shirt'',
      product_onlineStoreUrl = Some ''https://shop.example/products/shirt'',
      product_featuredImage = Some ''https://cdn.example/shirt.jpg'',
      product_variants = map size_variant [''XS'', ''S'', ''M'', ''L'', ''XL'', ''XXL''],
      product_descriptionHtml = ''<p>A shirt.</p>''\<rparr>"

text \<open>A poster with an image and two variants.\<close>

definition poster :: product where
  "poster =
     \<lparr>product_id = ''gid://shopify/Product/4'', product_title = ''Poster'',
      product_onlineStoreUrl = None,
      product_featuredImage = Some ''https://cdn.example/poster.jpg'',
      product_variants =
        [\<lparr>variant_id = ''gid://shopify/ProductVariant/41'', variant_title = ''A3'',
          variant_price = ''9.50''\<rparr>,
         \<lparr>variant_id = ''gid://shopify/ProductVariant/42'', variant_title = ''A2'',
          variant_price = ''14.00''\<rparr>],
      product_descriptionHtml = []\<rparr>"

definition lovely :: jsval where
  "lovely =
     JObj [(''content'',
       JArr [JObj [(''type'', JStr ''text''), (''text'', JStr ''A lovely mug.'')]])]"

text \<open>Every call rejects.\<close>

definition offline :: env where
  "offline =
     \<lparr>admin_graphql = (\<lambda>document variables. Inl GraphqlError),
      fetch = (\<lambda>request. Inl FetchError),
      CLAUDE_API_SECRET = None\<rparr>"

text \<open>The shop sells the mug, the shirt and the poster; a mutation answers with both
  URLs of the product, the image host with three bytes, the generation API with a
  description.\<close>

definition jpeg :: response where
  "jpeg = \<lparr>resp_status = 200, resp_json = Inl ParseError, resp_bytes = Inr [0xFF, 0xD8, 0xFF]\<rparr>"

definition online :: env where
  "online =
     shop_env [mug, shirt, poster]
       \<lparr>admin_graphql = (\<lambda>document variables.
          Inr (json_response
            (product_update ''gid://shopify/Product/1'' (Some ''https://shop.example/products/1'')
               (Some ''https://shop.example/preview/1'')))),
        fetch = (\<lambda>request.
          case request of Get url \<Rightarrow> Inr jpeg | Post url headers rd \<Rightarrow> Inr (json_response lovely)),
        CLAUDE_API_SECRET = Some ''key''\<rparr>"

text \<open>The same, with another answer of the image host or of the generation API.\<close>

definition with_image :: "(exn + response) \<Rightarrow> env" where
  "with_image answer =
     online\<lparr>fetch := (\<lambda>request.
       case request of Get url \<Rightarrow> answer | Post url headers rd \<Rightarrow> Inr (json_response lovely))\<rparr>"

definition with_generation :: "(exn + response) \<Rightarrow> env" where
  "with_generation answer =
     online\<lparr>fetch := (\<lambda>request.
       case request of Get url \<Rightarrow> Inr jpeg | Post url headers rd \<Rightarrow> answer)\<rparr>"

text \<open>The image host answers 404 with a two-byte body.\<close>

definition not_found :: response where
  "not_found = \<lparr>resp_status = 404, resp_json = Inl ParseError, resp_bytes = Inr [78, 111]\<rparr>"

text \<open>A response with status 200 whose body is not JSON.\<close>

definition garbled :: response where
  "garbled = \<lparr>resp_status = 200, resp_json = Inl ParseError, resp_bytes = Inr []\<rparr>"

text \<open>An Admin client that accepts one mutation only: the one for the mug with exactly
  the given description. Anything else is rejected.\<close>

definition long_description :: string where
  "long_description =
     ''<h1>Blue Mug</h1><script>alert(1)</script>  <p>Holds 350 ml of coffee, tea & more.</p>  ''"

definition strict :: env where
  "strict =
     \<lparr>admin_graphql = (\<lambda>document variables.
          if document = update_document \<and>
             variables =
               JObj [(''input'',
                 JObj [(''id'', JStr ''gid://shopify/Product/1''),
                       (''descriptionHtml'', JStr long_description)])]
          then Inr (json_response
                 (product_update ''gid://shopify/Product/1'' None
                    (Some ''https://shop.example/preview/1'')))
          else Inl GraphqlError),
      fetch = (\<lambda>request. Inl FetchError),
      CLAUDE_API_SECRET = None\<rparr>"

definition mug_form :: form_data where
  "mug_form = [''productId'' \<mapsto> ''gid://shopify/Product/1'', ''action'' \<mapsto> ''generate'']"

definition shirt_form :: form_data where
  "shirt_form = [''productId'' \<mapsto> ''gid://shopify/Product/2'', ''action'' \<mapsto> ''generate'']"

definition poster_form :: form_data where
  "poster_form = [''productId'' \<mapsto> ''gid://shopify/Product/4'', ''action'' \<mapsto> ''generate'']"

definition mug_prompt :: string where
  "mug_prompt =
     ''Generate an engaging product description for the following product:'' @ [CHR 0x0A] @
     ''  Title: Blue Mug'' @ [CHR 0x0A] @
     ''  Variants: Default - $12.00'' @ [CHR 0x0A] @
     ''  Please provide a compelling product description that highlights key features, benefits, and unique selling points. Ensure the description is SEO-friendly and approximately 150-200 words long.''"

definition shirt_prompt :: string where
  "shirt_prompt =
     ''Generate an engaging product description for the following product:'' @ [CHR 0x0A] @
     ''  Title: Shirt'' @ [CHR 0x0A] @
     ''  Variants: XS - $30.00, S - $30.00, M - $30.00, L - $30.00, XL - $30.00'' @ [CHR 0x0A] @
     ''  Please provide a compelling product description that highlights key features, benefits, and unique selling points. Ensure the description is SEO-friendly and approximately 150-200 words long. Use the provided image for additional context.''"

definition poster_prompt :: string where
  "poster_prompt =
     ''Generate an engaging product description for the following product:'' @ [CHR 0x0A] @
     ''  Title: Poster'' @ [CHR 0x0A] @
     ''  Variants: A3 - $9.50, A2 - $14.00'' @ [CHR 0x0A] @
     ''  Please provide a compelling product description that highlights key features, benefits, and unique selling points. Ensure the description is SEO-friendly and approximately 150-200 words long. Use the provided image for additional context.''"

definition request_with :: "string \<Rightarrow> string option \<Rightarrow> request_data" where
  "request_with prompt_text img =
     \<lparr>model = ''claude-3-opus-20240229'',
      max_tokens = 1000,
      system = ''You are a professional product copywriter specializing in creating compelling and SEO-friendly product descriptions.'',
      messages =
        [\<lparr>role = ''user'',
          content =
            TextBlock prompt_text #
            (case img of None \<Rightarrow> [] | Some data \<Rightarrow> [ImageBlock ''base64'' ''image/jpeg'' data])\<rparr>]\<rparr>"

section \<open>Properties\<close>

subsection \<open>Auxiliary facts\<close>

lemma bind_exn_Inl [simp]: "bind_exn (Inl e) f = Inl e"
  by (simp add: bind_exn_def)

lemma bind_exn_Inr [simp]: "bind_exn (Inr v) f = f v"
  by (simp add: bind_exn_def)

lemmas io_defs = io_return_def io_lift_def io_bind_def io_catch_def call_graphql_def
  call_fetch_def

lemmas world_defs = online_def offline_def with_image_def with_generation_def strict_def
  shop_env_def admin_api_def product_tree_def variant_tree_def leaf_def
  product_document_def update_document_def products_document_def
  product_fields_def product_data_def listing_json_def edges_json_def image_json_def
  nullable_def json_response_def mug_def shirt_def poster_def size_variant_def lovely_def
  product_update_def not_found_def garbled_def jpeg_def mug_form_def shirt_form_def
  poster_form_def product_variables_def long_description_def request_with_def

lemmas action_defs = action_def generate_description_def prepare_request_def lookup_product_def
  read_product_def load_image_def requestData_def prompt_def request_generation_def
  try_generation_def read_generation_def array_map_def variant_entry_def get_opt_def
  update_description_def try_update_def read_update_def form_value_def json_def
  api_headers_def api_url_def ok_def fallback_def generation_failed_def update_failed_def
  missing_product_id_def

text \<open>The two branches of \<open>action\<close>.\<close>

lemma action_generate:
  assumes "formData ''productId'' = Some pid" and "pid \<noteq> []"
    and "formData ''action'' \<noteq> Some ''update''"
  shows "action env formData = generate_description env pid []"
  using assms by (simp add: action_def)

lemma action_update:
  assumes "formData ''productId'' = Some pid" and "pid \<noteq> []"
    and "formData ''action'' = Some ''update''"
  shows "action env formData = update_description env pid (formData ''description'') []"
  using assms by (simp add: action_def)

text \<open>Each step, by the answer of the environment.\<close>

lemma run_update:
  "update_description env pid d calls =
     (Inr (case admin_graphql env update_document
                 (JObj [(''input'', JObj [(''id'', JStr pid),
                                          (''descriptionHtml'', form_value d)])]) of
             Inl e \<Rightarrow> update_failed
           | Inr r \<Rightarrow> (case read_update r of Inl e \<Rightarrow> update_failed | Inr rep \<Rightarrow> rep)),
      calls @ [AdminGraphql update_document
                 (JObj [(''input'', JObj [(''id'', JStr pid),
                                          (''descriptionHtml'', form_value d)])])])"
  by (simp add: update_description_def try_update_def io_defs split: sum.splits)

lemma run_lookup:
  "lookup_product env pid calls =
     (bind_exn (admin_graphql env product_document (product_variables pid)) read_product,
      calls @ [AdminGraphql product_document (product_variables pid)])"
  by (simp add: lookup_product_def io_defs product_variables_def split: sum.splits)

lemma run_load_image:
  "load_image env u calls =
     (if truthy u then
        (case js_to_string u of
           Inl e \<Rightarrow> (Inl e, calls)
         | Inr url \<Rightarrow>
             (bind_exn (fetch env (Get url)) (\<lambda>r.
              bind_exn (resp_bytes r) (\<lambda>b. Inr (Some (base64 b)))),
              calls @ [Fetch (Get url)]))
      else (Inr None, calls))"
  by (simp add: load_image_def io_defs split: sum.splits)

lemma run_request_generation:
  "request_generation env rd calls =
     (Inr (case fetch env (Post api_url (api_headers env) rd) of
             Inl e \<Rightarrow> generation_failed
           | Inr r \<Rightarrow> (case read_generation r of Inl e \<Rightarrow> generation_failed | Inr rep \<Rightarrow> rep)),
      calls @ [Fetch (Post api_url (api_headers env) rd)])"
  by (simp add: request_generation_def try_generation_def io_defs split: sum.splits)

lemma run_generate:
  "generate_description env pid calls =
     (case prepare_request env pid calls of
        (Inl e, calls') \<Rightarrow> (Inl e, calls')
      | (Inr rd, calls') \<Rightarrow> request_generation env rd calls')"
  by (simp add: generate_description_def io_bind_def)

lemma run_prepare:
  "prepare_request env pid calls =
     (case lookup_product env pid calls of
        (Inl e, calls1) \<Rightarrow> (Inl e, calls1)
      | (Inr (t, vs, u), calls1) \<Rightarrow>
          (case load_image env u calls1 of
             (Inl e, calls2) \<Rightarrow> (Inl e, calls2)
           | (Inr b, calls2) \<Rightarrow> (requestData t vs u b, calls2)))"
  by (simp add: prepare_request_def io_bind_def io_lift_def split: sum.splits prod.splits)

text \<open>The calls made before the request to the generation API: the product query,
  then at most the image fetch.\<close>

lemma calls_prepare:
  "snd (prepare_request env pid []) = [AdminGraphql product_document (product_variables pid)] \<or>
   (\<exists>u. snd (prepare_request env pid []) =
      [AdminGraphql product_document (product_variables pid), Fetch (Get u)])"
  by (auto simp: run_prepare run_lookup run_load_image split: sum.splits prod.splits)

text \<open>Reading the reply of the product query.\<close>

lemma map_entries:
  "map_exn variant_entry
     (map (\<lambda>x. JObj [(''node'', JObj [(''title'', JStr (variant_title x)),
                                       (''price'', JStr (variant_price x))])]) vs)
   = Inr (map entry vs)"
  by (induction vs) (simp_all add: variant_entry_def entry_def)

lemma read_fields:
  assumes "resp_json r = Inr (product_data (product_fields t img vs))"
  shows "read_product r =
           Inr (JStr t, map entry vs, (case img of None \<Rightarrow> JUndefined | Some u \<Rightarrow> JStr u))"
  using assms
  by (simp add: read_product_def product_data_def product_fields_def edges_json_def
      array_map_def map_entries get_opt_def image_json_def split: option.splits)

lemma read_null:
  assumes "resp_json r = Inr (product_data JNull)"
  shows "read_product r = Inl TypeError"
  using assms by (simp add: read_product_def product_data_def)

lemma join_commas: "join sep (x # xs) = x @ concat (map (\<lambda>y. sep @ y) xs)"
  by (induction xs arbitrary: x) simp_all

lemma base64_empty: "base64 bs = [] \<longleftrightarrow> bs = []"
  by (cases bs rule: base64.cases) (simp_all add: Let_def)

text \<open>The Admin API of a shop, asked with the documents of the source.\<close>

lemma exec_variants:
  "exec_many (GField ''edges'' [] [GField ''node'' [] [GField ''title'' [] [], GField ''price'' [] []]])
     (map (\<lambda>v. Obj [(''node'', variant_tree v)]) vs) =
   Inr (map (\<lambda>v. JObj [(''node'', JObj [(''title'', JStr (variant_title v)),
                                        (''price'', JStr (variant_price v))])]) vs)"
  by (induction vs) (simp_all add: variant_tree_def)

lemma exec_listed_variants:
  "exec_many (GField ''edges'' []
       [GField ''node'' [] [GField ''id'' [] [], GField ''title'' [] [], GField ''price'' [] []]])
     (map (\<lambda>v. Obj [(''node'', variant_tree v)]) vs) =
   Inr (map (\<lambda>v. JObj [(''node'', JObj [(''id'', JStr (variant_id v)),
                                        (''title'', JStr (variant_title v)),
                                        (''price'', JStr (variant_price v))])]) vs)"
  by (induction vs) (simp_all add: variant_tree_def)

lemma shop_product:
  "admin_graphql (shop_env shop env) product_document (product_variables pid) =
     Inr (json_response (product_data
       (case find (\<lambda>p. product_id p = pid) shop of
          None \<Rightarrow> JNull
        | Some p \<Rightarrow>
            product_fields (product_title p) (product_featuredImage p)
              (take 5 (product_variants p)))))"
  by (simp add: shop_env_def admin_api_def product_document_def product_variables_def
      leaf_def product_tree_def product_data_def product_fields_def edges_json_def
      image_json_def take_map comp_def exec_variants split: option.splits)

lemma exec_listing:
  "exec_many
     (GField ''edges'' []
       [GField ''node'' []
         [GField ''id'' [] [], GField ''title'' [] [], GField ''onlineStoreUrl'' [] [],
          GField ''featuredImage'' [] [GField ''url'' [] []],
          GField ''variants'' [(''first'', Lit 5)]
            [GField ''edges'' []
              [GField ''node'' []
                [GField ''id'' [] [], GField ''title'' [] [], GField ''price'' [] []]]],
          GField ''descriptionHtml'' [] []]])
     (map (\<lambda>p. Obj [(''node'', product_tree p)]) ps) =
   Inr (map (\<lambda>q. JObj [(''node'',
          listing_json (product_id q) (product_title q) (product_onlineStoreUrl q)
            (product_featuredImage q) (take 5 (product_variants q))
            (product_descriptionHtml q))]) ps)"
  by (induction ps)
    (simp_all add: product_tree_def listing_json_def edges_json_def image_json_def take_map
      comp_def exec_listed_variants split: option.splits)

text \<open>The steps before the request to the generation API, for a product reply with
  string fields.\<close>

lemma prepared_prompt:
  assumes "admin_graphql env product_document (product_variables pid) = Inr r"
    and "resp_json r = Inr (product_data (product_fields t img vs))"
    and "prepare_request env pid [] = (Inr rd, calls)"
  shows "request_prompt rd =
      Some (''Generate an engaging product description for the following product:'' @ [CHR 0x0A] @
            ''  Title: '' @ t @ [CHR 0x0A] @
            ''  Variants: '' @ join '', '' (map entry vs) @ [CHR 0x0A] @
            ''  Please provide a compelling product description that highlights key features, benefits, and unique selling points. Ensure the description is SEO-friendly and approximately 150-200 words long.'' @
            (if \<exists>u. img = Some u \<and> u \<noteq> [] then image_clause else []))"
proof -
  have l: "lookup_product env pid [] =
      (Inr (JStr t, map entry vs, (case img of None \<Rightarrow> JUndefined | Some u \<Rightarrow> JStr u)),
       [AdminGraphql product_document (product_variables pid)])"
    using assms(1) read_fields [OF assms(2)] by (simp add: run_lookup)
  have tr: "truthy (case img of None \<Rightarrow> JUndefined | Some u \<Rightarrow> JStr u)
      \<longleftrightarrow> (\<exists>u. img = Some u \<and> u \<noteq> [])"
    by (cases img) simp_all
  obtain res cs where li: "load_image env (case img of None \<Rightarrow> JUndefined | Some u \<Rightarrow> JStr u)
      [AdminGraphql product_document (product_variables pid)] = (res, cs)"
    by (cases "load_image env (case img of None \<Rightarrow> JUndefined | Some u \<Rightarrow> JStr u)
      [AdminGraphql product_document (product_variables pid)]")
  show ?thesis
  proof (cases res)
    case (Inl e)
    then show ?thesis using assms(3) l li by (simp add: run_prepare)
  next
    case (Inr b)
    then have "requestData (JStr t) (map entry vs)
        (case img of None \<Rightarrow> JUndefined | Some u \<Rightarrow> JStr u) b = Inr rd"
      using assms(3) l li by (simp add: run_prepare)
    then show ?thesis using tr
      by (auto simp: requestData_def prompt_def request_prompt_def)
  qed
qed

lemma mug_prepared:
  "prepare_request (with_generation answer) ''gid://shopify/Product/1'' [] =
     (Inr (request_with mug_prompt None),
      [AdminGraphql product_document (product_variables ''gid://shopify/Product/1'')])"
  by (simp add: world_defs action_defs io_defs mug_prompt_def image_clause_def)

lemma mug_prepared_online:
  "prepare_request online ''gid://shopify/Product/1'' [] =
     (Inr (request_with mug_prompt None),
      [AdminGraphql product_document (product_variables ''gid://shopify/Product/1'')])"
  by (simp add: world_defs action_defs io_defs mug_prompt_def image_clause_def)

lemma shirt_prepared:
  "prepare_request online ''gid://shopify/Product/2'' [] =
     (Inr (request_with shirt_prompt (Some ''/9j/'')),
      [AdminGraphql product_document (product_variables ''gid://shopify/Product/2''),
       Fetch (Get ''https://cdn.example/shirt.jpg'')])"
  by (simp add: world_defs action_defs io_defs shirt_prompt_def image_clause_def b64_def
      base64_alphabet_def)

lemma poster_prepared:
  "prepare_request online ''gid://shopify/Product/4'' [] =
     (Inr (request_with poster_prompt (Some ''/9j/'')),
      [AdminGraphql product_document (product_variables ''gid://shopify/Product/4''),
       Fetch (Get ''https://cdn.example/poster.jpg'')])"
  by (simp add: world_defs action_defs io_defs poster_prompt_def image_clause_def b64_def
      base64_alphabet_def)

lemma unknown_prepared:
  "prepare_request online ''gid://shopify/Product/3'' [] =
     (Inl TypeError,
      [AdminGraphql product_document (product_variables ''gid://shopify/Product/3'')])"
  by (simp add: world_defs action_defs io_defs)

text \<open>The prompt of the request, for a product reply with string fields.\<close>

lemma prompt_of_reply:
  assumes "formData ''productId'' = Some pid" and "pid \<noteq> []"
    and "formData ''action'' \<noteq> Some ''update''"
    and "admin_graphql env product_document (JObj [(''productId'', JStr pid)]) = Inr r"
    and "resp_json r = Inr (product_data (product_fields t img vs))"
    and "prepare_request env pid [] = (Inr rd, calls)"
  shows "snd (action env formData) = calls @ [Fetch (Post api_url (api_headers env) rd)] \<and>
         request_prompt rd = Some (
           ''Generate an engaging product description for the following product:'' @ [CHR 0x0A] @
           ''  Title: '' @ t @ [CHR 0x0A] @
           ''  Variants: '' @
           (case vs of
              [] \<Rightarrow> []
            | v # ws \<Rightarrow>
                variant_title v @ '' - $'' @ variant_price v @
                concat (map (\<lambda>w. '', '' @ variant_title w @ '' - $'' @ variant_price w) ws)) @
           [CHR 0x0A] @
           ''  Please provide a compelling product description that highlights key features, benefits, and unique selling points. Ensure the description is SEO-friendly and approximately 150-200 words long.'' @
           (if \<exists>u. img = Some u \<and> u \<noteq> []
            then '' Use the provided image for additional context.'' else []))"
proof -
  have q: "admin_graphql env product_document (product_variables pid) = Inr r"
    using assms(4) by (simp add: product_variables_def)
  have j: "join '', '' (map entry vs) =
      (case vs of
         [] \<Rightarrow> []
       | v # ws \<Rightarrow>
           variant_title v @ '' - $'' @ variant_price v @
           concat (map (\<lambda>w. '', '' @ variant_title w @ '' - $'' @ variant_price w) ws))"
    by (cases vs) (simp_all add: join_commas entry_def comp_def)
  have "snd (action env formData) = calls @ [Fetch (Post api_url (api_headers env) rd)]"
    using action_generate [OF assms(1,2,3), of env] assms(6)
    by (simp add: run_generate run_request_generation)
  then show ?thesis
    using prepared_prompt [OF q assms(5,6)] j by (simp add: image_clause_def)
qed

text \<open>Reading the reply of the generation API.\<close>

lemma get_prop_child:
  "v \<noteq> JNull \<Longrightarrow> v \<noteq> JUndefined \<Longrightarrow>
   get_prop v k = Inr (case child v k of None \<Rightarrow> JUndefined | Some x \<Rightarrow> x)"
  by (cases v) (simp_all add: child_def)

lemma get_first_element:
  "v \<noteq> JNull \<Longrightarrow> v \<noteq> JUndefined \<Longrightarrow>
   get_first v = Inr (case first_element v of None \<Rightarrow> JUndefined | Some x \<Rightarrow> x)"
  by (cases v) (simp_all add: first_element_def split: list.splits)

lemma truthy_not_null: "truthy v \<Longrightarrow> v \<noteq> JNull \<and> v \<noteq> JUndefined"
  by (cases v) simp_all

lemma lacks_text_fallback:
  assumes "b \<noteq> JNull" and "b \<noteq> JUndefined" and "lacks_text b"
  shows "bind_exn (get_prop b ''content'') (\<lambda>c1.
       if \<not> truthy c1 then Inr fallback
       else
         bind_exn (get_first c1) (\<lambda>c0.
         if \<not> truthy c0 then Inr fallback
         else
           bind_exn (get_prop c0 ''text'') (\<lambda>t.
           if \<not> truthy t then Inr fallback
           else Inr (json [(''description'', t)] 200)))) = Inr fallback"
proof -
  let ?c = "case child b ''content'' of None \<Rightarrow> JUndefined | Some x \<Rightarrow> x"
  have c: "get_prop b ''content'' = Inr ?c" using assms get_prop_child by simp
  show ?thesis
  proof (cases "truthy ?c")
    case False
    then show ?thesis using c by simp
  next
    case tc: True
    let ?e = "case first_element ?c of None \<Rightarrow> JUndefined | Some x \<Rightarrow> x"
    have e: "get_first ?c = Inr ?e" using truthy_not_null [OF tc] get_first_element by simp
    show ?thesis
    proof (cases "truthy ?e")
      case False
      then show ?thesis using c tc e by simp
    next
      case te: True
      let ?t = "case child ?e ''text'' of None \<Rightarrow> JUndefined | Some x \<Rightarrow> x"
      have t: "get_prop ?e ''text'' = Inr ?t"
        using truthy_not_null [OF te] get_prop_child by simp
      have "expected_text b = child ?e ''text''"
        using tc te by (auto simp: expected_text_def split: option.splits)
      then have "\<not> truthy ?t" using assms(3)
        by (auto simp: lacks_text_def split: option.splits)
      then show ?thesis using c tc e te t by simp
    qed
  qed
qed

lemma fallback_reply:
  assumes "\<not> ok r \<or> (\<exists>b. resp_json r = Inr b \<and> b \<noteq> JNull \<and> b \<noteq> JUndefined \<and> lacks_text b)"
  shows "read_generation r = Inr fallback"
proof (cases "ok r")
  case False
  then show ?thesis by (simp add: read_generation_def)
next
  case True
  then obtain b where b: "resp_json r = Inr b" "b \<noteq> JNull" "b \<noteq> JUndefined" "lacks_text b"
    using assms by blast
  show ?thesis using True b(1) lacks_text_fallback [OF b(2,3,4)]
    by (simp add: read_generation_def)
qed

text \<open>Reading the reply of the mutation.\<close>

lemma read_update_urls:
  assumes "resp_json r = Inr (product_update pid storeUrl previewUrl)"
  shows "read_update r =
     Inr (json [(''success'', JBool True),
                (''onlineStoreUrl'',
                   (if truthy (nullable storeUrl) then nullable storeUrl
                    else nullable previewUrl))] 200)"
  using assms by (simp add: read_update_def product_update_def)

lemma read_update_success:
  assumes "read_update r = Inr rep"
  shows "\<exists>u. rep = json [(''success'', JBool True), (''onlineStoreUrl'', u)] 200"
  using assms unfolding read_update_def bind_exn_def
  by (auto split: sum.splits if_splits)

text \<open>In the update branch a product id that does not resolve (the mutation answers
  with \<open>product: null\<close>) ends in the \<open>catch\<close>, as an error envelope.\<close>

lemma update_unresolved:
  assumes "admin_graphql env update_document
             (JObj [(''input'', JObj [(''id'', JStr pid), (''descriptionHtml'', form_value d)])])
           = Inr r"
    and "resp_json r =
           Inr (JObj [(''data'', JObj [(''productUpdate'', JObj [(''product'', JNull)])])])"
  shows "fst (update_description env pid d []) =
           Inr \<lparr>body = JObj [(''error'', JStr ''Failed to update product description'')],
                status = 500\<rparr>"
  using assms by (simp add: run_update read_update_def update_failed_def json_def)

text \<open>What the prompts of the concrete runs contain.\<close>

lemma mug_prompt_title: "sublist ''Title: Blue Mug'' mug_prompt"
  unfolding mug_prompt_def by (simp add: sublist_Cons_right)

lemma mug_prompt_variants: "sublist ''Variants: Default - $12.00'' mug_prompt"
  unfolding mug_prompt_def by (simp add: sublist_Cons_right)

lemma mug_prompt_no_image: "\<not> sublist '' Use the provided image for additional context.'' mug_prompt"
  unfolding mug_prompt_def by (simp add: sublist_Cons_right)

lemma poster_prompt_variants: "sublist ''Variants: A3 - $9.50, A2 - $14.00'' poster_prompt"
  unfolding poster_prompt_def by (simp add: sublist_Cons_right)

lemma poster_prompt_image:
  "sublist '' Use the provided image for additional context.'' poster_prompt"
  unfolding poster_prompt_def by (simp add: sublist_Cons_right)

lemma shirt_prompt_five:
  "sublist ''Variants: XS - $30.00, S - $30.00, M - $30.00, L - $30.00, XL - $30.00''
     shirt_prompt"
  unfolding shirt_prompt_def by (simp add: sublist_Cons_right)

lemma shirt_prompt_no_sixth: "\<not> sublist ''XXL'' shirt_prompt"
  unfolding shirt_prompt_def by (simp add: sublist_Cons_right)

subsection \<open>Validation and dispatch\<close>

text \<open>C3. A call whose payload has no product identifier, or an empty one, is answered
  with status 400 and the body \<open>{error: "Product ID is required"}\<close>, whatever the action,
  and makes no external call: no catalog read, no generation request, no mutation.\<close>

theorem missing_product_id_rejected:
  assumes "formData ''productId'' = None \<or> formData ''productId'' = Some []"
  shows "action env formData =
           (Inr \<lparr>body = JObj [(''error'', JStr ''Product ID is required'')], status = 400\<rparr>, [])"
  using assms by (auto simp: action_def missing_product_id_def json_def io_return_def)

text \<open>Two runs: an update without the field, and a generate with an empty one.\<close>

theorem missing_product_id_rejected_witness:
  "action online [''action'' \<mapsto> ''update'', ''description'' \<mapsto> ''x''] =
     (Inr \<lparr>body = JObj [(''error'', JStr ''Product ID is required'')], status = 400\<rparr>, []) \<and>
   action online [''productId'' \<mapsto> [], ''action'' \<mapsto> ''generate''] =
     (Inr \<lparr>body = JObj [(''error'', JStr ''Product ID is required'')], status = 400\<rparr>, [])"
  using missing_product_id_rejected
          [of "[''action'' \<mapsto> ''update'', ''description'' \<mapsto> ''x'']" online]
        missing_product_id_rejected
          [of "[''productId'' \<mapsto> [], ''action'' \<mapsto> ''generate'']" online]
  by simp

text \<open>C6. With a product id present, the action \<open>update\<close> runs the Publisher once and the
  Generator not at all: the one external call is the mutation. Every other action,
  \<open>generate\<close> and unrecognised or absent ones alike, runs the Generator once and the
  Publisher not at all. A run of the generate branch begins with the product query of
  line 104, so its runs are counted by that query: it is sent exactly once, as the
  first call, and no mutation is sent. The request to the generation API is sent
  exactly once, as the last call, unless a step before it raises; then the exception
  leaves \<open>action\<close> and no request is sent. So no call both writes and generates. The
  calls counted are those the environment was asked to answer.\<close>

theorem dispatch_exclusive:
  assumes "formData ''productId'' = Some pid" and "pid \<noteq> []"
  shows "(formData ''action'' = Some ''update'' \<longrightarrow>
            snd (action env formData) =
              [AdminGraphql update_document
                 (JObj [(''input'',
                    JObj [(''id'', JStr pid),
                          (''descriptionHtml'',
                             (case formData ''description'' of
                                None \<Rightarrow> JNull | Some d \<Rightarrow> JStr d))])])] \<and>
            publisher_calls (snd (action env formData)) = 1 \<and>
            generator_calls (snd (action env formData)) = 0 \<and>
            generation_requests (snd (action env formData)) = 0) \<and>
         (formData ''action'' \<noteq> Some ''update'' \<longrightarrow>
            publisher_calls (snd (action env formData)) = 0 \<and>
            generator_calls (snd (action env formData)) = 1 \<and>
            hd (snd (action env formData)) =
              AdminGraphql product_document (JObj [(''productId'', JStr pid)]) \<and>
            (\<forall>rd calls. prepare_request env pid [] = (Inr rd, calls) \<longrightarrow>
               snd (action env formData) = calls @ [Fetch (Post api_url (api_headers env) rd)] \<and>
               generation_requests (snd (action env formData)) = 1) \<and>
            (\<forall>e calls. prepare_request env pid [] = (Inl e, calls) \<longrightarrow>
               action env formData = (Inl e, calls) \<and>
               generation_requests (snd (action env formData)) = 0)) \<and>
         \<not> (0 < publisher_calls (snd (action env formData)) \<and>
            0 < generator_calls (snd (action env formData)) +
                generation_requests (snd (action env formData)))"
proof (cases "formData ''action'' = Some ''update''")
  case True
  have "snd (action env formData) =
      [AdminGraphql update_document
         (JObj [(''input'',
            JObj [(''id'', JStr pid),
                  (''descriptionHtml'',
                     (case formData ''description'' of None \<Rightarrow> JNull | Some d \<Rightarrow> JStr d))])])]"
    using assms True
    by (simp add: action_def update_description_def try_update_def io_defs form_value_def
        split: sum.splits)
  then show ?thesis using True
    by (simp add: publisher_calls_def generator_calls_def generation_requests_def
        update_document_def)
next
  case False
  have a: "action env formData = generate_description env pid []"
    using assms False by (simp add: action_def)
  obtain res calls where p: "prepare_request env pid [] = (res, calls)"
    by (cases "prepare_request env pid []")
  have c: "calls = [AdminGraphql product_document (product_variables pid)] \<or>
      (\<exists>u. calls = [AdminGraphql product_document (product_variables pid), Fetch (Get u)])"
    using calls_prepare [of env pid] p by simp
  show ?thesis
  proof (cases res)
    case (Inl e)
    then have "action env formData = (Inl e, calls)"
      using a p by (simp add: generate_description_def io_bind_def)
    then show ?thesis using False c p Inl
      by (auto simp: publisher_calls_def generator_calls_def generation_requests_def
          product_document_def product_variables_def)
  next
    case (Inr rd)
    then have "snd (action env formData) = calls @ [Fetch (Post api_url (api_headers env) rd)]"
      using a p
      by (simp add: generate_description_def request_generation_def try_generation_def io_defs
          split: sum.splits)
    then show ?thesis using False c p Inr
      by (auto simp: publisher_calls_def generator_calls_def generation_requests_def
          product_document_def product_variables_def)
  qed
qed

text \<open>An update and a generate for the mug, an unrecognised action for the shirt, and a
  generate for an id the shop does not have, where the product query is the only
  call.\<close>

theorem dispatch_exclusive_witness:
  "publisher_calls (snd (action online (mug_form(''action'' \<mapsto> ''update'')))) = 1 \<and>
   generator_calls (snd (action online (mug_form(''action'' \<mapsto> ''update'')))) = 0 \<and>
   generation_requests (snd (action online (mug_form(''action'' \<mapsto> ''update'')))) = 0 \<and>
   publisher_calls (snd (action online mug_form)) = 0 \<and>
   generator_calls (snd (action online mug_form)) = 1 \<and>
   generation_requests (snd (action online mug_form)) = 1 \<and>
   publisher_calls (snd (action online (shirt_form(''action'' \<mapsto> ''delete'')))) = 0 \<and>
   generator_calls (snd (action online (shirt_form(''action'' \<mapsto> ''delete'')))) = 1 \<and>
   generation_requests (snd (action online (shirt_form(''action'' \<mapsto> ''delete'')))) = 1 \<and>
   publisher_calls
     (snd (action online (mug_form(''productId'' \<mapsto> ''gid://shopify/Product/3'')))) = 0 \<and>
   generator_calls
     (snd (action online (mug_form(''productId'' \<mapsto> ''gid://shopify/Product/3'')))) = 1 \<and>
   generation_requests
     (snd (action online (mug_form(''productId'' \<mapsto> ''gid://shopify/Product/3'')))) = 0"
  using dispatch_exclusive
          [of "mug_form(''action'' \<mapsto> ''update'')" "''gid://shopify/Product/1''" online]
        dispatch_exclusive [of mug_form "''gid://shopify/Product/1''" online]
        mug_prepared_online
        dispatch_exclusive
          [of "shirt_form(''action'' \<mapsto> ''delete'')" "''gid://shopify/Product/2''" online]
        shirt_prepared
        dispatch_exclusive
          [of "mug_form(''productId'' \<mapsto> ''gid://shopify/Product/3'')"
              "''gid://shopify/Product/3''" online]
        unknown_prepared
  by (simp add: mug_form_def shirt_form_def publisher_calls_def generator_calls_def
      generation_requests_def product_document_def update_document_def)

subsection \<open>The update branch\<close>

text \<open>C7. When the mutation succeeds, the URL returned to the UI is the live storefront
  URL when the product has one, even when it has a preview URL too; with no storefront
  URL it is the preview URL; with neither it is \<open>null\<close>. A URL that is present is a
  non-empty string; an absent one is \<open>null\<close> in the reply.\<close>

theorem public_url_preference:
  assumes "formData ''productId'' = Some pid" and "pid \<noteq> []"
    and "formData ''action'' = Some ''update''"
    and "admin_graphql env update_document
           (JObj [(''input'',
              JObj [(''id'', JStr pid),
                    (''descriptionHtml'',
                       (case formData ''description'' of
                          None \<Rightarrow> JNull | Some d \<Rightarrow> JStr d))])]) = Inr r"
    and "resp_json r = Inr (product_update pid storeUrl previewUrl)"
  shows "(\<forall>s. storeUrl = Some s \<and> s \<noteq> [] \<longrightarrow>
            fst (action env formData) =
              Inr \<lparr>body = JObj [(''success'', JBool True), (''onlineStoreUrl'', JStr s)],
                   status = 200\<rparr>) \<and>
         (\<forall>p. storeUrl = None \<and> previewUrl = Some p \<longrightarrow>
            fst (action env formData) =
              Inr \<lparr>body = JObj [(''success'', JBool True), (''onlineStoreUrl'', JStr p)],
                   status = 200\<rparr>) \<and>
         (storeUrl = None \<and> previewUrl = None \<longrightarrow>
            fst (action env formData) =
              Inr \<lparr>body = JObj [(''success'', JBool True), (''onlineStoreUrl'', JNull)],
                   status = 200\<rparr>)"
  using action_update [OF assms(1,2,3), of env] assms(4) read_update_urls [OF assms(5)]
  by (auto simp: run_update form_value_def json_def nullable_def)

text \<open>The mutation for the mug answers with both URLs: the storefront URL is
  returned.\<close>

theorem public_url_preference_witness:
  "fst (action online (mug_form(''action'' \<mapsto> ''update'', ''description'' \<mapsto> ''New'')))
     = Inr \<lparr>body = JObj [(''success'', JBool True),
                          (''onlineStoreUrl'', JStr ''https://shop.example/products/1'')],
            status = 200\<rparr>"
proof -
  let ?F = "mug_form(''action'' \<mapsto> ''update'', ''description'' \<mapsto> ''New'')"
  let ?r = "json_response
              (product_update ''gid://shopify/Product/1'' (Some ''https://shop.example/products/1'')
                 (Some ''https://shop.example/preview/1''))"
  have 1: "?F ''productId'' = Some ''gid://shopify/Product/1''" by (simp add: mug_form_def)
  have 2: "''gid://shopify/Product/1'' \<noteq> []" by simp
  have 3: "?F ''action'' = Some ''update''" by simp
  have 4: "admin_graphql online update_document
           (JObj [(''input'',
              JObj [(''id'', JStr ''gid://shopify/Product/1''),
                    (''descriptionHtml'',
                       (case ?F ''description'' of None \<Rightarrow> JNull | Some d \<Rightarrow> JStr d))])]) = Inr ?r"
    by (simp add: online_def shop_env_def update_document_def)
  have 5: "resp_json ?r =
      Inr (product_update ''gid://shopify/Product/1'' (Some ''https://shop.example/products/1'')
             (Some ''https://shop.example/preview/1''))"
    by (simp add: json_response_def)
  show ?thesis using public_url_preference [of ?F, OF 1 2 3 4 5] by simp
qed

text \<open>C8, as amended. In an update call with a product id the description is read from
  the payload and never checked, neither for presence nor for content. The one external
  call is the write mutation, and the \<open>descriptionHtml\<close> the Admin client receives is
  exactly what the payload holds under \<open>description\<close>: the same string, whatever its
  length and characters, the empty one included, and \<open>null\<close> when the field is absent.
  The reply is made from the answer to that very mutation: the success envelope, or the
  failure envelope of the Publisher, never a validation error.\<close>

theorem description_verbatim:
  assumes "formData ''productId'' = Some pid" and "pid \<noteq> []"
    and "formData ''action'' = Some ''update''"
  shows "action env formData =
           (Inr (case admin_graphql env update_document
                        (JObj [(''input'',
                           JObj [(''id'', JStr pid),
                                 (''descriptionHtml'',
                                    (case formData ''description'' of
                                       None \<Rightarrow> JNull | Some d \<Rightarrow> JStr d))])]) of
                   Inl e \<Rightarrow>
                     \<lparr>body = JObj [(''error'', JStr ''Failed to update product description'')],
                      status = 500\<rparr>
                 | Inr r \<Rightarrow>
                     (case read_update r of
                        Inl e \<Rightarrow>
                          \<lparr>body = JObj [(''error'', JStr ''Failed to update product description'')],
                           status = 500\<rparr>
                      | Inr rep \<Rightarrow> rep)),
            [AdminGraphql update_document
               (JObj [(''input'',
                  JObj [(''id'', JStr pid),
                        (''descriptionHtml'',
                           (case formData ''description'' of
                              None \<Rightarrow> JNull | Some d \<Rightarrow> JStr d))])])]) \<and>
         (fst (action env formData) =
            Inr \<lparr>body = JObj [(''error'', JStr ''Failed to update product description'')],
                 status = 500\<rparr> \<or>
          (\<exists>u. fst (action env formData) =
             Inr (json [(''success'', JBool True), (''onlineStoreUrl'', u)] 200)))"
proof -
  let ?vars = "JObj [(''input'',
                  JObj [(''id'', JStr pid),
                        (''descriptionHtml'',
                           (case formData ''description'' of
                              None \<Rightarrow> JNull | Some d \<Rightarrow> JStr d))])]"
  have a: "action env formData =
      (Inr (case admin_graphql env update_document ?vars of
              Inl e \<Rightarrow> update_failed
            | Inr r \<Rightarrow> (case read_update r of Inl e \<Rightarrow> update_failed | Inr rep \<Rightarrow> rep)),
       [AdminGraphql update_document ?vars])"
    using assms
    by (simp add: action_def update_description_def try_update_def io_defs form_value_def
        split: sum.splits)
  have b: "fst (action env formData) = Inr update_failed \<or>
      (\<exists>u. fst (action env formData) =
         Inr (json [(''success'', JBool True), (''onlineStoreUrl'', u)] 200))"
  proof (cases "admin_graphql env update_document ?vars")
    case (Inl e)
    then show ?thesis using a by simp
  next
    case r: (Inr r)
    show ?thesis
    proof (cases "read_update r")
      case (Inl e)
      then show ?thesis using a r by simp
    next
      case (Inr rep)
      then obtain u where "rep = json [(''success'', JBool True), (''onlineStoreUrl'', u)] 200"
        using read_update_success by blast
      then show ?thesis using a r Inr by auto
    qed
  qed
  have uf: "update_failed =
      \<lparr>body = JObj [(''error'', JStr ''Failed to update product description'')], status = 500\<rparr>"
    by (simp add: update_failed_def json_def)
  from a b show ?thesis unfolding uf by simp
qed

text \<open>An Admin client that rejects any mutation but the one carrying a given
  description of 88 characters, with markup, a script element and trailing blanks,
  accepts the update: the description arrived as it was sent.\<close>

theorem description_verbatim_witness:
  "length long_description = 88 \<and>
   action strict (mug_form(''action'' \<mapsto> ''update'', ''description'' \<mapsto> long_description)) =
     (Inr \<lparr>body = JObj [(''success'', JBool True),
                         (''onlineStoreUrl'', JStr ''https://shop.example/preview/1'')],
           status = 200\<rparr>,
      [AdminGraphql update_document
         (JObj [(''input'',
            JObj [(''id'', JStr ''gid://shopify/Product/1''),
                  (''descriptionHtml'', JStr long_description)])])])"
  using description_verbatim
          [of "mug_form(''action'' \<mapsto> ''update'', ''description'' \<mapsto> long_description)"
              "''gid://shopify/Product/1''" strict]
  by (simp add: mug_form_def strict_def read_update_def json_response_def product_update_def
      nullable_def json_def long_description_def)

text \<open>That the description is required fails: an update whose payload has no
  \<open>description\<close> is carried out, the mutation is sent with \<open>null\<close> and the reply is the
  success envelope.\<close>

theorem description_not_required:
  "(mug_form(''action'' \<mapsto> ''update'')) ''description'' = None \<and>
   action online (mug_form(''action'' \<mapsto> ''update'')) =
     (Inr \<lparr>body = JObj [(''success'', JBool True),
                         (''onlineStoreUrl'', JStr ''https://shop.example/products/1'')],
           status = 200\<rparr>,
      [AdminGraphql update_document
         (JObj [(''input'',
            JObj [(''id'', JStr ''gid://shopify/Product/1''),
                  (''descriptionHtml'', JNull)])])])"
  by (simp add: mug_form_def online_def shop_env_def action_defs io_defs json_response_def
      product_update_def nullable_def update_document_def)

subsection \<open>The generate branch: before the request\<close>

text \<open>C4. A generation call for a product id that does not resolve: the product query
  answers \<open>product: null\<close>, reading \<open>title\<close> from it raises a \<open>TypeError\<close> outside any
  \<open>try\<close>, and the exception leaves \<open>action\<close> instead of an \<open>{error}\<close> envelope.\<close>

theorem unresolved_product_raises:
  "admin_graphql online product_document (product_variables ''gid://shopify/Product/3'') =
     Inr (json_response (product_data JNull)) \<and>
   action online [''productId'' \<mapsto> ''gid://shopify/Product/3'', ''action'' \<mapsto> ''generate''] =
     (Inl TypeError,
      [AdminGraphql product_document (product_variables ''gid://shopify/Product/3'')])"
  by (simp add: world_defs action_defs io_defs)

text \<open>It is so for every such call.\<close>

lemma every_unresolved_product_raises:
  assumes "formData ''productId'' = Some pid" and "pid \<noteq> []"
    and "formData ''action'' \<noteq> Some ''update''"
    and "admin_graphql env product_document (product_variables pid) = Inr r"
    and "resp_json r = Inr (product_data JNull)"
  shows "action env formData =
           (Inl TypeError, [AdminGraphql product_document (product_variables pid)])"
  using action_generate [OF assms(1,2,3), of env] assms(4) read_null [OF assms(5)]
  by (simp add: run_generate run_prepare run_lookup)

text \<open>C5. A generation call for a product with a featured image URL whose image fetch
  fails: the fetch of line 136 rejects outside any \<open>try\<close>, the exception leaves
  \<open>action\<close> after the product query and the image fetch, no request is sent to the
  generation API, and there is no reply.\<close>

theorem image_fetch_failure_aborts:
  "action (with_image (Inl FetchError)) shirt_form =
     (Inl FetchError,
      [AdminGraphql product_document (product_variables ''gid://shopify/Product/2''),
       Fetch (Get ''https://cdn.example/shirt.jpg'')])"
  by (simp add: world_defs action_defs io_defs)

text \<open>It is so for every product with an image URL and every rejection, of the fetch or
  of the read of the body.\<close>

lemma every_image_rejection_aborts:
  assumes "formData ''productId'' = Some pid" and "pid \<noteq> []"
    and "formData ''action'' \<noteq> Some ''update''"
    and "admin_graphql env product_document (product_variables pid) = Inr r"
    and "resp_json r = Inr (product_data (product_fields t (Some u) vs))"
    and "u \<noteq> []"
    and "fetch env (Get u) = Inl e \<or>
         (\<exists>ir. fetch env (Get u) = Inr ir \<and> resp_bytes ir = Inl e)"
  shows "action env formData =
           (Inl e, [AdminGraphql product_document (product_variables pid), Fetch (Get u)])"
  using action_generate [OF assms(1,2,3), of env] assms(4,6,7) read_fields [OF assms(5)]
  by (auto simp: run_generate run_prepare run_lookup run_load_image)

text \<open>The status of the image response is never looked at: when the fetch and the read
  of the body return, the encoded body is sent as the image unless it is empty.\<close>

lemma image_status_ignored:
  assumes "formData ''productId'' = Some pid" and "pid \<noteq> []"
    and "formData ''action'' \<noteq> Some ''update''"
    and "admin_graphql env product_document (product_variables pid) = Inr r"
    and "resp_json r = Inr (product_data (product_fields t (Some u) vs))"
    and "u \<noteq> []"
    and "fetch env (Get u) = Inr ir"
    and "resp_bytes ir = Inr bytes"
  shows "\<exists>rd. snd (action env formData) =
           [AdminGraphql product_document (product_variables pid), Fetch (Get u),
            Fetch (Post api_url (api_headers env) rd)] \<and>
         tl (content (hd (messages rd))) =
           (if bytes = [] then [] else [ImageBlock ''base64'' ''image/jpeg'' (base64 bytes)])"
  using action_generate [OF assms(1,2,3), of env] assms(4,6,7,8) read_fields [OF assms(5)]
  by (auto simp: run_generate run_prepare run_lookup run_load_image run_request_generation
      requestData_def prompt_def base64_empty)

text \<open>C9. The prompt sent to the generation API is the fixed template with the product
  title after \<open>Title: \<close> and, after \<open>Variants: \<close>, the \<open>title - $price\<close> entries of the
  variants in the reply, each but the first preceded by a comma and a blank; the image
  clause ends it exactly when the product has a featured image URL.\<close>

theorem prompt_template:
  assumes "formData ''productId'' = Some pid" and "pid \<noteq> []"
    and "formData ''action'' \<noteq> Some ''update''"
    and "admin_graphql env product_document (JObj [(''productId'', JStr pid)]) = Inr r"
    and "resp_json r = Inr (product_data (product_fields t img vs))"
    and "prepare_request env pid [] = (Inr rd, calls)"
  shows "snd (action env formData) = calls @ [Fetch (Post api_url (api_headers env) rd)] \<and>
         request_prompt rd = Some (
           ''Generate an engaging product description for the following product:'' @ [CHR 0x0A] @
           ''  Title: '' @ t @ [CHR 0x0A] @
           ''  Variants: '' @
           (case vs of
              [] \<Rightarrow> []
            | v # ws \<Rightarrow>
                variant_title v @ '' - $'' @ variant_price v @
                concat (map (\<lambda>w. '', '' @ variant_title w @ '' - $'' @ variant_price w) ws)) @
           [CHR 0x0A] @
           ''  Please provide a compelling product description that highlights key features, benefits, and unique selling points. Ensure the description is SEO-friendly and approximately 150-200 words long.'' @
           (if \<exists>u. img = Some u \<and> u \<noteq> []
            then '' Use the provided image for additional context.'' else []))"
proof -
  have q: "admin_graphql env product_document (product_variables pid) = Inr r"
    using assms(4) by (simp add: product_variables_def)
  have commas: "join sep (x # xs) = x @ concat (map (\<lambda>y. sep @ y) xs)"
    for sep :: string and x xs
    by (induction xs arbitrary: x) simp_all
  have j: "join '', '' (map entry vs) =
      (case vs of
         [] \<Rightarrow> []
       | v # ws \<Rightarrow>
           variant_title v @ '' - $'' @ variant_price v @
           concat (map (\<lambda>w. '', '' @ variant_title w @ '' - $'' @ variant_price w) ws))"
    by (cases vs) (simp_all add: commas entry_def comp_def)
  have "snd (action env formData) = calls @ [Fetch (Post api_url (api_headers env) rd)]"
    using assms(1,2,3,6)
    by (simp add: action_def generate_description_def request_generation_def
        try_generation_def io_defs split: sum.splits)
  then show ?thesis
    using prepared_prompt [OF q assms(5,6)] j by (simp add: image_clause_def)
qed

text \<open>Two runs. The product titled Blue Mug, with the one variant Default priced 12.00
  and no image: the prompt contains \<open>Title: Blue Mug\<close> and
  \<open>Variants: Default - $12.00\<close> and no image clause. The poster, with an image and two
  variants: the prompt lists both entries with the comma between them and ends with the
  image clause.\<close>

theorem prompt_template_witness:
  "snd (action online mug_form) =
     [AdminGraphql product_document (product_variables ''gid://shopify/Product/1''),
      Fetch (Post api_url (api_headers online) (request_with mug_prompt None))] \<and>
   request_prompt (request_with mug_prompt None) = Some mug_prompt \<and>
   sublist ''Title: Blue Mug'' mug_prompt \<and>
   sublist ''Variants: Default - $12.00'' mug_prompt \<and>
   \<not> sublist '' Use the provided image for additional context.'' mug_prompt \<and>
   snd (action online poster_form) =
     [AdminGraphql product_document (product_variables ''gid://shopify/Product/4''),
      Fetch (Get ''https://cdn.example/poster.jpg''),
      Fetch (Post api_url (api_headers online) (request_with poster_prompt (Some ''/9j/'')))] \<and>
   request_prompt (request_with poster_prompt (Some ''/9j/'')) = Some poster_prompt \<and>
   sublist ''Variants: A3 - $9.50, A2 - $14.00'' poster_prompt \<and>
   sublist '' Use the provided image for additional context.'' poster_prompt"
proof -
  let ?m = "''gid://shopify/Product/1''"
  let ?p = "''gid://shopify/Product/4''"
  let ?rm = "json_response (product_data (product_fields ''Blue Mug'' None (product_variants mug)))"
  let ?rp = "json_response (product_data (product_fields ''Poster''
               (Some ''https://cdn.example/poster.jpg'') (product_variants poster)))"
  have m1: "mug_form ''productId'' = Some ?m" by (simp add: mug_form_def)
  have m3: "mug_form ''action'' \<noteq> Some ''update''" by (simp add: mug_form_def)
  have m4: "admin_graphql online product_document (JObj [(''productId'', JStr ?m)]) = Inr ?rm"
    using shop_product [of "[mug, shirt, poster]" _ ?m]
    by (simp add: online_def product_variables_def mug_def)
  have m5: "resp_json ?rm =
      Inr (product_data (product_fields ''Blue Mug'' None (product_variants mug)))"
    by (simp add: json_response_def)
  have p1: "poster_form ''productId'' = Some ?p" by (simp add: poster_form_def)
  have p3: "poster_form ''action'' \<noteq> Some ''update''" by (simp add: poster_form_def)
  have p4: "admin_graphql online product_document (JObj [(''productId'', JStr ?p)]) = Inr ?rp"
    using shop_product [of "[mug, shirt, poster]" _ ?p]
    by (simp add: online_def product_variables_def mug_def shirt_def poster_def)
  have p5: "resp_json ?rp =
      Inr (product_data (product_fields ''Poster'' (Some ''https://cdn.example/poster.jpg'')
             (product_variants poster)))"
    by (simp add: json_response_def)
  show ?thesis
    using prompt_template [of mug_form ?m online, OF m1 _ m3 m4 m5 mug_prepared_online]
      prompt_template [of poster_form ?p online, OF p1 _ p3 p4 p5 poster_prepared]
      mug_prompt_title mug_prompt_variants mug_prompt_no_image
      poster_prompt_variants poster_prompt_image
    by (simp add: mug_def poster_def mug_prompt_def poster_prompt_def)
qed

text \<open>C10. Both documents ask for \<open>variants(first: 5)\<close>, so only the first five variants
  of a product are ever used. Against the Admin API of any shop, which answers
  \<open>first: k\<close> with the first \<open>k\<close> nodes for the \<open>k\<close> the document gives: for a product
  with more than five variants the \<open>Variants:\<close> list of the prompt has exactly the
  entries of its first five, not one for every variant, and each product of the catalog
  listing carries its first five.\<close>

theorem variants_truncated:
  assumes "formData ''productId'' = Some pid" and "pid \<noteq> []"
    and "formData ''action'' \<noteq> Some ''update''"
    and "find (\<lambda>p. product_id p = pid) shop = Some p"
    and "5 < length (product_variants p)"
    and "prepare_request (shop_env shop env) pid [] = (Inr rd, calls)"
  shows "snd (action (shop_env shop env) formData) =
           calls @ [Fetch (Post api_url (api_headers (shop_env shop env)) rd)] \<and>
         request_prompt rd = Some (
           ''Generate an engaging product description for the following product:'' @ [CHR 0x0A] @
           ''  Title: '' @ product_title p @ [CHR 0x0A] @
           ''  Variants: '' @
           (case take 5 (product_variants p) of
              [] \<Rightarrow> []
            | v # ws \<Rightarrow>
                variant_title v @ '' - $'' @ variant_price v @
                concat (map (\<lambda>w. '', '' @ variant_title w @ '' - $'' @ variant_price w) ws)) @
           [CHR 0x0A] @
           ''  Please provide a compelling product description that highlights key features, benefits, and unique selling points. Ensure the description is SEO-friendly and approximately 150-200 words long.'' @
           (if \<exists>u. product_featuredImage p = Some u \<and> u \<noteq> []
            then '' Use the provided image for additional context.'' else [])) \<and>
         length (take 5 (product_variants p)) = 5 \<and>
         length (take 5 (product_variants p)) < length (product_variants p) \<and>
         loader (shop_env shop env) =
           (Inr \<lparr>body = JObj [(''products'',
                   JArr (map (\<lambda>q. JObj [(''node'',
                           listing_json (product_id q) (product_title q)
                             (product_onlineStoreUrl q) (product_featuredImage q)
                             (take 5 (product_variants q)) (product_descriptionHtml q))])
                          (take 20 shop)))],
                 status = 200\<rparr>,
            [AdminGraphql products_document JUndefined])"
proof -
  let ?e = "shop_env shop env"
  let ?r = "json_response (product_data
              (product_fields (product_title p) (product_featuredImage p)
                 (take 5 (product_variants p))))"
  have q: "admin_graphql ?e product_document (JObj [(''productId'', JStr pid)]) = Inr ?r"
    using assms(4)
    by (simp add: shop_env_def admin_api_def product_document_def leaf_def product_tree_def
        product_data_def product_fields_def edges_json_def image_json_def take_map comp_def
        exec_variants split: option.splits)
  have j: "resp_json ?r =
      Inr (product_data (product_fields (product_title p) (product_featuredImage p)
             (take 5 (product_variants p))))"
    by (simp add: json_response_def)
  have l: "loader ?e =
      (Inr \<lparr>body = JObj [(''products'',
              JArr (map (\<lambda>q. JObj [(''node'',
                      listing_json (product_id q) (product_title q)
                        (product_onlineStoreUrl q) (product_featuredImage q)
                        (take 5 (product_variants q)) (product_descriptionHtml q))])
                     (take 20 shop)))],
            status = 200\<rparr>,
       [AdminGraphql products_document JUndefined])"
    by (simp add: loader_def io_defs shop_env_def admin_api_def products_document_def leaf_def
        read_products_def json_response_def json_def take_map comp_def exec_listing)
  show ?thesis
    using prompt_of_reply [OF assms(1,2,3) q j assms(6)] assms(5) l
    by simp
qed

text \<open>The shirt has six variants, XS to XXL; the prompt lists XS to XL, and the listing
  carries five variants for it.\<close>

theorem variants_truncated_witness:
  "length (product_variants shirt) = 6 \<and>
   snd (action online shirt_form) =
     [AdminGraphql product_document (product_variables ''gid://shopify/Product/2''),
      Fetch (Get ''https://cdn.example/shirt.jpg''),
      Fetch (Post api_url (api_headers online) (request_with shirt_prompt (Some ''/9j/'')))] \<and>
   request_prompt (request_with shirt_prompt (Some ''/9j/'')) = Some shirt_prompt \<and>
   sublist ''Variants: XS - $30.00, S - $30.00, M - $30.00, L - $30.00, XL - $30.00''
     shirt_prompt \<and>
   \<not> sublist ''XXL'' shirt_prompt \<and>
   fst (loader online) =
     Inr \<lparr>body = JObj [(''products'',
             JArr [JObj [(''node'',
                     listing_json ''gid://shopify/Product/1'' ''Blue Mug'' None None
                       (product_variants mug) [])],
                   JObj [(''node'',
                     listing_json ''gid://shopify/Product/2'' ''Shirt''
                       (Some ''https://shop.example/products/shirt'')
                       (Some ''https://cdn.example/shirt.jpg'')
                       (map size_variant [''XS'', ''S'', ''M'', ''L'', ''XL''])
                       ''<p>A shirt.</p>'')],
                   JObj [(''node'',
                     listing_json ''gid://shopify/Product/4'' ''Poster'' None
                       (Some ''https://cdn.example/poster.jpg'')
                       (product_variants poster) [])]])],
           status = 200\<rparr>"
proof -
  let ?pid = "''gid://shopify/Product/2''"
  let ?base = "\<lparr>admin_graphql = (\<lambda>document variables.
          Inr (json_response
            (product_update ''gid://shopify/Product/1'' (Some ''https://shop.example/products/1'')
               (Some ''https://shop.example/preview/1'')))),
        fetch = (\<lambda>request.
          case request of Get url \<Rightarrow> Inr jpeg | Post url headers rd \<Rightarrow> Inr (json_response lovely)),
        CLAUDE_API_SECRET = Some ''key''\<rparr>"
  have o: "online = shop_env [mug, shirt, poster] ?base" by (simp add: online_def)
  have 1: "shirt_form ''productId'' = Some ?pid" by (simp add: shirt_form_def)
  have 2: "?pid \<noteq> []" by simp
  have 3: "shirt_form ''action'' \<noteq> Some ''update''" by (simp add: shirt_form_def)
  have 4: "find (\<lambda>p. product_id p = ?pid) [mug, shirt, poster] = Some shirt"
    by (simp add: mug_def shirt_def)
  have 5: "5 < length (product_variants shirt)" by (simp add: shirt_def)
  have 6: "prepare_request (shop_env [mug, shirt, poster] ?base) ?pid [] =
     (Inr (request_with shirt_prompt (Some ''/9j/'')),
      [AdminGraphql product_document (product_variables ?pid),
       Fetch (Get ''https://cdn.example/shirt.jpg'')])"
    using shirt_prepared o by simp
  show ?thesis
    using variants_truncated [of shirt_form, OF 1 2 3 4 5 6]
      shirt_prompt_five shirt_prompt_no_sixth o
    by (simp add: shirt_def mug_def poster_def size_variant_def shirt_prompt_def)
qed

subsection \<open>The generate branch: the request\<close>

text \<open>C1. The generation API answers 200 with the JSON body \<open>null\<close>, a body without the
  text field: reading \<open>content\<close> from it raises inside the \<open>try\<close>, and the reply is the
  error envelope with status 500, not the placeholder description.\<close>

theorem null_reply_is_error:
  "ok (json_response JNull) \<and> lacks_text JNull \<and>
   action (with_generation (Inr (json_response JNull))) mug_form =
     (Inr \<lparr>body = JObj [(''error'', JStr ''Failed to generate description. Please try again later.'')],
           status = 500\<rparr>,
      [AdminGraphql product_document (product_variables ''gid://shopify/Product/1''),
       Fetch (Post api_url (api_headers online) (request_with mug_prompt None))])"
  by (simp add: world_defs action_defs io_defs lacks_text_def expected_text_def child_def
      mug_prompt_def image_clause_def)

text \<open>Every other reply of that kind gives the placeholder: a status outside 200-299,
  or a JSON body other than \<open>null\<close> that lacks the text field.\<close>

lemma fallback_on_rejected_or_malformed:
  assumes "formData ''productId'' = Some pid" and "pid \<noteq> []"
    and "formData ''action'' \<noteq> Some ''update''"
    and "prepare_request env pid [] = (Inr rd, calls)"
    and "fetch env (Post api_url (api_headers env) rd) = Inr r"
    and "\<not> ok r \<or> (\<exists>b. resp_json r = Inr b \<and> b \<noteq> JNull \<and> b \<noteq> JUndefined \<and> lacks_text b)"
  shows "fst (action env formData) =
           Inr \<lparr>body = JObj [(''description'',
                   JStr ''Failed to generate description. Let`s try use this one for demo purposes.'')],
                 status = 200\<rparr>"
  using action_generate [OF assms(1,2,3), of env] assms(4,5) fallback_reply [OF assms(6)]
  by (simp add: run_generate run_request_generation fallback_def placeholder_def json_def)

text \<open>C2. When the request to the generation API fails in transport, that is the fetch
  rejects or the read of the body of a 2xx response rejects, the reply is the error
  envelope \<open>{error: ...}\<close> with status 500: no description, and not the placeholder.\<close>

theorem transport_failure_is_error:
  assumes "formData ''productId'' = Some pid" and "pid \<noteq> []"
    and "formData ''action'' \<noteq> Some ''update''"
    and "prepare_request env pid [] = (Inr rd, calls)"
    and "fetch env (Post api_url (api_headers env) rd) = Inl e \<or>
         (\<exists>r. fetch env (Post api_url (api_headers env) rd) = Inr r \<and> ok r \<and>
              resp_json r = Inl e)"
  shows "fst (action env formData) =
           Inr \<lparr>body = JObj [(''error'',
                   JStr ''Failed to generate description. Please try again later.'')],
                status = 500\<rparr>"
  using action_generate [OF assms(1,2,3), of env] assms(4,5)
  by (auto simp: run_generate run_request_generation read_generation_def
      generation_failed_def json_def)

text \<open>The fetch rejects; and the fetch answers 200 with a body that is not JSON.\<close>

theorem transport_failure_is_error_witness:
  "fst (action (with_generation (Inl FetchError)) mug_form) =
     Inr \<lparr>body = JObj [(''error'',
             JStr ''Failed to generate description. Please try again later.'')],
          status = 500\<rparr> \<and>
   fst (action (with_generation (Inr garbled)) mug_form) =
     Inr \<lparr>body = JObj [(''error'',
             JStr ''Failed to generate description. Please try again later.'')],
          status = 500\<rparr>"
proof -
  let ?pid = "''gid://shopify/Product/1''"
  let ?e1 = "with_generation (Inl FetchError)"
  let ?e2 = "with_generation (Inr garbled)"
  let ?rd = "request_with mug_prompt None"
  have 1: "mug_form ''productId'' = Some ?pid" by (simp add: mug_form_def)
  have 2: "?pid \<noteq> []" by simp
  have 3: "mug_form ''action'' \<noteq> Some ''update''" by (simp add: mug_form_def)
  have a: "fetch ?e1 (Post api_url (api_headers ?e1) ?rd) = Inl FetchError \<or>
      (\<exists>r. fetch ?e1 (Post api_url (api_headers ?e1) ?rd) = Inr r \<and> ok r \<and>
           resp_json r = Inl FetchError)"
    by (simp add: with_generation_def)
  have b: "fetch ?e2 (Post api_url (api_headers ?e2) ?rd) = Inl ParseError \<or>
      (\<exists>r. fetch ?e2 (Post api_url (api_headers ?e2) ?rd) = Inr r \<and> ok r \<and>
           resp_json r = Inl ParseError)"
    by (simp add: with_generation_def garbled_def ok_def)
  show ?thesis
    using transport_failure_is_error [of mug_form, OF 1 2 3 mug_prepared a]
      transport_failure_is_error [of mug_form, OF 1 2 3 mug_prepared b]
    by simp
qed

end
